theory Spec2Isabelle
  imports Main "HOL-Library.Sublist"
begin

section \<open>Data model of \<open>extract_linkedin_cookies.py\<close>\<close>

text \<open>
  A Python \<open>str\<close> is modelled by the \<open>string\<close> of its UTF-8 bytes, a Python
  \<open>bytes\<close> object by the list of its bytes. A cell of the value column of a cookie
  table holds either of them (SQLite TEXT or BLOB).
\<close>

datatype cell = Text string | Bytes string

text \<open>
  One row of the seven-column SELECT of both extractors: \<open>row[0]\<close> .. \<open>row[6]\<close>.
  A column that may be NULL is an option; the flags and the expiry are SQLite integers.
\<close>

record raw_row =
  r_name :: string
  r_value :: cell
  r_host :: string
  r_path :: "string option"
  r_expiry :: "int option"
  r_secure :: "int option"
  r_httponly :: "int option"

text \<open>The dictionary built for each row; \<open>c_value\<close> is whatever the code stores there.\<close>

record cookie =
  c_name :: string
  c_value :: cell
  c_domain :: string
  c_path :: string
  c_expiry :: "int option"
  c_secure :: bool
  c_httpOnly :: bool

section \<open>Normalisation of a row\<close>

text \<open>\<open>s.startswith('.')\<close>\<close>

definition startswith_dot :: "string \<Rightarrow> bool" where
  "startswith_dot s = (case s of [] \<Rightarrow> False | c # _ \<Rightarrow> c = CHR ''.'')"

text \<open>\<open>'.' in s\<close>\<close>

definition contains_dot :: "string \<Rightarrow> bool" where
  "contains_dot s = (CHR ''.'' \<in> set s)"

text \<open>
  Line 229:
  \<^verbatim>\<open>row[2] if row[2].startswith('.') else f".{row[2]}" if not row[2].startswith('.') and '.' in row[2] else row[2]\<close>
\<close>

definition firefox_domain :: "string \<Rightarrow> string" where
  "firefox_domain h =
     (if startswith_dot h then h
      else if \<not> startswith_dot h \<and> contains_dot h then CHR ''.'' # h
      else h)"

text \<open>
  Line 271:
  \<^verbatim>\<open>host_key if host_key.startswith('.') else f".{host_key}" if '.' in host_key else host_key\<close>
\<close>

definition chrome_domain :: "string \<Rightarrow> string" where
  "chrome_domain h =
     (if startswith_dot h then h
      else if contains_dot h then CHR ''.'' # h
      else h)"

text \<open>\<open>row[3] or '/'\<close>: None and the empty string are falsy.\<close>

definition path_or_slash :: "string option \<Rightarrow> string" where
  "path_or_slash p = (case p of None \<Rightarrow> ''/'' | Some s \<Rightarrow> if s = [] then ''/'' else s)"

text \<open>\<open>row[4] if row[4] else None\<close>: None and 0 are falsy.\<close>

definition expiry_or_none :: "int option \<Rightarrow> int option" where
  "expiry_or_none e = (case e of None \<Rightarrow> None | Some n \<Rightarrow> if n \<noteq> 0 then Some n else None)"

text \<open>\<open>bool(row[5]) if row[5] is not None else True\<close>\<close>

definition secure_flag :: "int option \<Rightarrow> bool" where
  "secure_flag f = (case f of Some n \<Rightarrow> n \<noteq> 0 | None \<Rightarrow> True)"

text \<open>\<open>bool(row[6]) if row[6] is not None else False\<close>\<close>

definition httponly_flag :: "int option \<Rightarrow> bool" where
  "httponly_flag f = (case f of Some n \<Rightarrow> n \<noteq> 0 | None \<Rightarrow> False)"

text \<open>Lines 226-234: the Firefox extractor stores \<open>row[1]\<close> as it is.\<close>

definition firefox_cookie :: "raw_row \<Rightarrow> cookie" where
  "firefox_cookie row =
     \<lparr>c_name = r_name row,
      c_value = r_value row,
      c_domain = firefox_domain (r_host row),
      c_path = path_or_slash (r_path row),
      c_expiry = expiry_or_none (r_expiry row),
      c_secure = secure_flag (r_secure row),
      c_httpOnly = httponly_flag (r_httponly row)\<rparr>"

subsection \<open>Strict UTF-8 decoding\<close>

text \<open>
  \<open>bytes.decode('utf-8')\<close> raises UnicodeDecodeError exactly on the byte sequences that
  are not well-formed UTF-8 (no overlong forms, no surrogates, nothing above U+10FFFF).
\<close>

definition cont_byte :: "nat \<Rightarrow> bool" where
  "cont_byte b = (0x80 \<le> b \<and> b \<le> 0xBF)"

fun utf8_valid :: "nat list \<Rightarrow> bool" where
  "utf8_valid [] = True"
| "utf8_valid [b] = (b < 0x80)"
| "utf8_valid [b, c1] =
     (if b < 0x80 then utf8_valid [c1]
      else 0xC2 \<le> b \<and> b \<le> 0xDF \<and> cont_byte c1)"
| "utf8_valid [b, c1, c2] =
     (if b < 0x80 then utf8_valid [c1, c2]
      else if 0xC2 \<le> b \<and> b \<le> 0xDF then cont_byte c1 \<and> utf8_valid [c2]
      else if b = 0xE0 then 0xA0 \<le> c1 \<and> c1 \<le> 0xBF \<and> cont_byte c2
      else if b = 0xED then 0x80 \<le> c1 \<and> c1 \<le> 0x9F \<and> cont_byte c2
      else 0xE1 \<le> b \<and> b \<le> 0xEF \<and> cont_byte c1 \<and> cont_byte c2)"
| "utf8_valid (b # c1 # c2 # c3 # r) =
     (if b < 0x80 then utf8_valid (c1 # c2 # c3 # r)
      else if 0xC2 \<le> b \<and> b \<le> 0xDF then cont_byte c1 \<and> utf8_valid (c2 # c3 # r)
      else if b = 0xE0 then 0xA0 \<le> c1 \<and> c1 \<le> 0xBF \<and> cont_byte c2 \<and> utf8_valid (c3 # r)
      else if b = 0xED then 0x80 \<le> c1 \<and> c1 \<le> 0x9F \<and> cont_byte c2 \<and> utf8_valid (c3 # r)
      else if 0xE1 \<le> b \<and> b \<le> 0xEF then cont_byte c1 \<and> cont_byte c2 \<and> utf8_valid (c3 # r)
      else if b = 0xF0 then 0x90 \<le> c1 \<and> c1 \<le> 0xBF \<and> cont_byte c2 \<and> cont_byte c3 \<and> utf8_valid r
      else if b = 0xF4 then 0x80 \<le> c1 \<and> c1 \<le> 0x8F \<and> cont_byte c2 \<and> cont_byte c3 \<and> utf8_valid r
      else 0xF1 \<le> b \<and> b \<le> 0xF3 \<and> cont_byte c1 \<and> cont_byte c2 \<and> cont_byte c3 \<and> utf8_valid r)"

text \<open>
  Lines 274-280: a \<open>str\<close> value is kept, a \<open>bytes\<close> value is decoded; None stands for
  the \<open>continue\<close> after UnicodeDecodeError.
\<close>

definition decode_value :: "cell \<Rightarrow> string option" where
  "decode_value v =
     (case v of
        Text s \<Rightarrow> Some s
      | Bytes bs \<Rightarrow> if utf8_valid (map of_char bs) then Some bs else None)"

text \<open>Lines 269-291: one iteration of the row loop of the Chrome/Edge extractor.\<close>

definition chrome_cookie :: "raw_row \<Rightarrow> cookie option" where
  "chrome_cookie row =
     (let host_key = r_host row;
          domain = chrome_domain host_key
      in case decode_value (r_value row) of
           None \<Rightarrow> None
         | Some cookie_value \<Rightarrow>
             Some \<lparr>c_name = r_name row,
                   c_value = Text cookie_value,
                   c_domain = domain,
                   c_path = path_or_slash (r_path row),
                   c_expiry = expiry_or_none (r_expiry row),
                   c_secure = secure_flag (r_secure row),
                   c_httpOnly = httponly_flag (r_httponly row)\<rparr>)"

section \<open>Cookie stores\<close>

text \<open>
  The exceptions the module distinguishes: \<open>sqlite3.OperationalError\<close> (caught by name
  in the query loops and in the probe) and every other subclass of \<open>Exception\<close>. The
  string is the text \<open>str(e)\<close> that the warnings print.
\<close>

datatype exn = OperationalError string | OtherException string

fun exn_str :: "exn \<Rightarrow> string" where
  "exn_str (OperationalError m) = m"
| "exn_str (OtherException m) = m"

datatype 'a outcome = Raises exn | Returns 'a

text \<open>The SQL statements of the module, in the order of their appearance.\<close>

datatype query =
    CountMozBaseDomain
  | CountMozHostLike
  | CountCookiesHostKeyLike
  | MozBaseDomain
  | MozHostList
  | MozHostLike
  | CookiesHostKeyLike
  | CookiesHostKeyDottedLike
  | CookiesHostKeyWww

fun sql :: "query \<Rightarrow> string" where
  "sql CountMozBaseDomain =
     ''SELECT COUNT(*) FROM moz_cookies WHERE (baseDomain='' @ [CHR 0x27] @ ''linkedin.com'' @ [CHR 0x27]
       @ '' OR baseDomain='' @ [CHR 0x27] @ ''.linkedin.com'' @ [CHR 0x27] @ '')''"
| "sql CountMozHostLike =
     ''SELECT COUNT(*) FROM moz_cookies WHERE host LIKE '' @ [CHR 0x27] @ ''%linkedin.com'' @ [CHR 0x27]"
| "sql CountCookiesHostKeyLike =
     ''SELECT COUNT(*) FROM cookies WHERE host_key LIKE '' @ [CHR 0x27] @ ''%linkedin.com'' @ [CHR 0x27]"
| "sql MozBaseDomain =
     ''SELECT name, value, host, path, expiry, isSecure, isHttpOnly FROM moz_cookies WHERE (baseDomain=''
       @ [CHR 0x27] @ ''linkedin.com'' @ [CHR 0x27] @ '' OR baseDomain='' @ [CHR 0x27] @ ''.linkedin.com''
       @ [CHR 0x27] @ '')''"
| "sql MozHostList =
     ''SELECT name, value, host, path, expiry, isSecure, isHttpOnly FROM moz_cookies WHERE (host=''
       @ [CHR 0x27] @ ''linkedin.com'' @ [CHR 0x27] @ '' OR host='' @ [CHR 0x27] @ ''.linkedin.com''
       @ [CHR 0x27] @ '' OR host='' @ [CHR 0x27] @ ''www.linkedin.com'' @ [CHR 0x27]
       @ '' OR host LIKE '' @ [CHR 0x27] @ ''%.linkedin.com'' @ [CHR 0x27] @ '')''"
| "sql MozHostLike =
     ''SELECT name, value, host, path, expiry, isSecure, isHttpOnly FROM moz_cookies WHERE host LIKE ''
       @ [CHR 0x27] @ ''%linkedin.com'' @ [CHR 0x27]"
| "sql CookiesHostKeyLike =
     ''SELECT name, value, host_key, path, expires_utc, is_secure, is_httponly FROM cookies WHERE host_key LIKE ''
       @ [CHR 0x27] @ ''%linkedin.com'' @ [CHR 0x27]"
| "sql CookiesHostKeyDottedLike =
     ''SELECT name, value, host_key, path, expires_utc, is_secure, is_httponly FROM cookies WHERE host_key LIKE ''
       @ [CHR 0x27] @ ''%.linkedin.com'' @ [CHR 0x27]"
| "sql CookiesHostKeyWww =
     ''SELECT name, value, host_key, path, expires_utc, is_secure, is_httponly FROM cookies WHERE host_key=''
       @ [CHR 0x27] @ ''www.linkedin.com'' @ [CHR 0x27]"

text \<open>
  What a cookie file answers, opened by \<open>connect(f"file:{cookiefile}?immutable=1", uri=True)\<close>:
  \<open>connect_error\<close> is the exception of \<open>connect\<close>, if any; \<open>fetchone\<close> is
  \<open>conn.execute(q).fetchone()\<close> of a COUNT query (no row, or the row holding the count);
  \<open>fetchall\<close> is \<open>conn.execute(q).fetchall()\<close> of a SELECT of cookie rows.
\<close>

record store =
  connect_error :: "exn option"
  fetchone :: "query \<Rightarrow> int option outcome"
  fetchall :: "query \<Rightarrow> raw_row list outcome"

section \<open>The probe \<open>has_linkedin_cookies\<close>\<close>

text \<open>\<open>result and result[0] > 0\<close>\<close>

definition counted :: "int option \<Rightarrow> bool" where
  "counted result = (case result of None \<Rightarrow> False | Some n \<Rightarrow> n > 0)"

text \<open>
  Lines 31-55, the body of the outer \<open>try\<close>: \<open>Inr True\<close> is \<open>return True\<close>,
  \<open>Inr False\<close> is falling through to \<open>conn.close()\<close>, \<open>Inl e\<close> is an exception
  that leaves the body. The handler of line 40 runs the host query only after an
  OperationalError of the baseDomain query.
\<close>

definition probe_body :: "store \<Rightarrow> bool \<Rightarrow> exn + bool" where
  "probe_body st is_firefox =
     (case connect_error st of
        Some e \<Rightarrow> Inl e
      | None \<Rightarrow>
          if is_firefox then
            (case fetchone st CountMozBaseDomain of
               Returns result \<Rightarrow> Inr (counted result)
             | Raises (OperationalError m) \<Rightarrow>
                 (case fetchone st CountMozHostLike of
                    Returns result \<Rightarrow> Inr (counted result)
                  | Raises e \<Rightarrow> Inl e)
             | Raises e \<Rightarrow> Inl e)
          else
            (case fetchone st CountCookiesHostKeyLike of
               Returns result \<Rightarrow> Inr (counted result)
             | Raises e \<Rightarrow> Inl e))"

text \<open>
  Lines 28-59: \<open>except Exception: pass\<close>, then \<open>return False\<close>. The second component
  is what the call prints: the function has no \<open>print\<close>.
\<close>

definition has_linkedin_cookies :: "store \<Rightarrow> bool \<Rightarrow> bool \<times> string list" where
  "has_linkedin_cookies st is_firefox =
     (case probe_body st is_firefox of
        Inr b \<Rightarrow> (b, [])
      | Inl e \<Rightarrow> (False, []))"

section \<open>Locating and ranking the cookie files\<close>

text \<open>
  The host: \<open>platform.system()\<close>, \<open>os.path.expanduser\<close>, \<open>glob.glob\<close>,
  \<open>os.path.exists\<close>, the cookie database behind each path, and what opening the output
  file for writing raises.
\<close>

record world =
  w_system :: string
  w_expanduser :: "string \<Rightarrow> string"
  w_glob :: "string \<Rightarrow> string list"
  w_exists :: "string \<Rightarrow> bool"
  w_database :: "string \<Rightarrow> store"
  w_open_write :: "string \<Rightarrow> exn option"

text \<open>
  Lines 92-102, 141-151 and 190-200: the loop filling \<open>prioritized\<close> and \<open>others\<close>.
\<close>

fun prioritize_loop ::
  "(string \<Rightarrow> bool) \<Rightarrow> string list \<Rightarrow> string list \<Rightarrow> string list \<Rightarrow> string list \<times> string list" where
  "prioritize_loop probe [] prioritized others = (prioritized, others)"
| "prioritize_loop probe (cookiefile # rest) prioritized others =
     (if probe cookiefile
      then prioritize_loop probe rest (prioritized @ [cookiefile]) others
      else prioritize_loop probe rest prioritized (others @ [cookiefile]))"

text \<open>\<open>return prioritized + others\<close>\<close>

definition prioritize :: "(string \<Rightarrow> bool) \<Rightarrow> string list \<Rightarrow> string list" where
  "prioritize probe cookie_files =
     (case prioritize_loop probe cookie_files [] [] of (prioritized, others) \<Rightarrow> prioritized @ others)"

definition firefox_cookie_patterns :: "string \<Rightarrow> string list" where
  "firefox_cookie_patterns platform =
     (if platform = ''Windows'' then
        [''~/AppData/Roaming/Mozilla/Firefox/Profiles/*/cookies.sqlite'',
         ''~/AppData/Roaming/Mozilla/Firefox Developer Edition/Profiles/*/cookies.sqlite'']
      else if platform = ''Darwin'' then
        [''~/Library/Application Support/Firefox/Profiles/*/cookies.sqlite'',
         ''~/Library/Application Support/Firefox Developer Edition/Profiles/*/cookies.sqlite'']
      else
        [''~/.mozilla/firefox/*/cookies.sqlite'',
         ''~/.mozilla/firefox-developer-edition/*/cookies.sqlite''])"

definition firefox_probe :: "world \<Rightarrow> string \<Rightarrow> bool" where
  "firefox_probe w cookiefile = fst (has_linkedin_cookies (w_database w cookiefile) True)"

definition chromium_probe :: "world \<Rightarrow> string \<Rightarrow> bool" where
  "chromium_probe w cookiefile = fst (has_linkedin_cookies (w_database w cookiefile) False)"

text \<open>Lines 84-87: \<open>all_cookiefiles\<close>, the files of every pattern, in order.\<close>

definition firefox_all_cookiefiles :: "world \<Rightarrow> string list" where
  "firefox_all_cookiefiles w =
     concat (map (\<lambda>pattern. w_glob w (w_expanduser w pattern))
                 (firefox_cookie_patterns (w_system w)))"

text \<open>Lines 62-102.\<close>

definition get_firefox_cookie_files :: "world \<Rightarrow> string list" where
  "get_firefox_cookie_files w =
     (let all_cookiefiles = firefox_all_cookiefiles w
      in if all_cookiefiles = [] then []
         else prioritize (firefox_probe w) all_cookiefiles)"

text \<open>Lines 123-139 and 172-188: the body of the loop over \<open>base_paths\<close>.\<close>

definition profile_cookie_files :: "world \<Rightarrow> string \<Rightarrow> string list" where
  "profile_cookie_files w base_path =
     (if \<not> w_exists w (w_expanduser w base_path) then []
      else
        (let default_cookies = w_expanduser w (base_path @ ''/Default/Cookies'')
         in (if w_exists w default_cookies then [default_cookies] else [])
            @ w_glob w (w_expanduser w (base_path @ ''/Profile */Cookies''))
            @ w_glob w (w_expanduser w (base_path @ ''/Profile [0-9]*/Cookies''))))"

definition chrome_base_paths :: "string \<Rightarrow> string list" where
  "chrome_base_paths platform =
     (if platform = ''Windows'' then [''~/AppData/Local/Google/Chrome/User Data'']
      else if platform = ''Darwin'' then [''~/Library/Application Support/Google/Chrome'']
      else [''~/.config/google-chrome''])"

definition edge_base_paths :: "string \<Rightarrow> string list" where
  "edge_base_paths platform =
     (if platform = ''Windows'' then [''~/AppData/Local/Microsoft/Edge/User Data'']
      else if platform = ''Darwin'' then [''~/Library/Application Support/Microsoft Edge'']
      else [''~/.config/microsoft-edge''])"

text \<open>Lines 122-139 and 171-188: \<open>cookie_files\<close> before the ranking.\<close>

definition chrome_cookie_files :: "world \<Rightarrow> string list" where
  "chrome_cookie_files w = concat (map (profile_cookie_files w) (chrome_base_paths (w_system w)))"

definition edge_cookie_files :: "world \<Rightarrow> string list" where
  "edge_cookie_files w = concat (map (profile_cookie_files w) (edge_base_paths (w_system w)))"

text \<open>Lines 105-151.\<close>

definition get_chrome_cookie_files :: "world \<Rightarrow> string list" where
  "get_chrome_cookie_files w = prioritize (chromium_probe w) (chrome_cookie_files w)"

text \<open>Lines 154-200.\<close>

definition get_edge_cookie_files :: "world \<Rightarrow> string list" where
  "get_edge_cookie_files w = prioritize (chromium_probe w) (edge_cookie_files w)"

section \<open>The extractors\<close>

definition GREEN :: string where "GREEN = ''[OK]''"
definition RED :: string where "RED = ''[X]''"
definition YELLOW :: string where "YELLOW = ''[!]''"
definition CYAN :: string where "CYAN = ''[*]''"

text \<open>Lines 209-216 and 255-259: the lists \<open>queries\<close>.\<close>

definition firefox_queries :: "query list" where
  "firefox_queries = [MozBaseDomain, MozHostList, MozHostLike]"

definition chrome_queries :: "query list" where
  "chrome_queries = [CookiesHostKeyLike, CookiesHostKeyDottedLike, CookiesHostKeyWww]"

text \<open>
  Lines 218-240, the loop \<open>for query in queries\<close> of the Firefox extractor. The first
  component is how the loop ends: \<open>Inr (Some cookies)\<close> is \<open>return cookies\<close>,
  \<open>Inr None\<close> is the end of the list, \<open>Inl e\<close> is an exception other than
  OperationalError, which leaves the loop for the handler of line 244. The second
  component lists the queries passed to \<open>conn.execute\<close>, in order.
\<close>

fun firefox_query_loop :: "store \<Rightarrow> query list \<Rightarrow> (exn + cookie list option) \<times> query list" where
  "firefox_query_loop st [] = (Inr None, [])"
| "firefox_query_loop st (q # qs) =
     (case fetchall st q of
        Returns rows \<Rightarrow>
          if rows \<noteq> [] then (Inr (Some (map firefox_cookie rows)), [q])
          else (case firefox_query_loop st qs of (r, executed) \<Rightarrow> (r, q # executed))
      | Raises (OperationalError m) \<Rightarrow>
          (case firefox_query_loop st qs of (r, executed) \<Rightarrow> (r, q # executed))
      | Raises e \<Rightarrow> (Inl e, [q]))"

text \<open>
  Lines 203-246. The result is the returned value (None or the list of cookies), the
  lines printed, and the queries executed.
\<close>

definition extract_cookies_from_firefox ::
  "store \<Rightarrow> string \<Rightarrow> cookie list option \<times> string list \<times> query list" where
  "extract_cookies_from_firefox st cookiefile =
     (case connect_error st of
        Some e \<Rightarrow>
          (None,
           [YELLOW @ '' Warning: Could not extract from Firefox '' @ cookiefile @ '': '' @ exn_str e],
           [])
      | None \<Rightarrow>
          (case firefox_query_loop st firefox_queries of
             (Inr r, executed) \<Rightarrow> (r, [], executed)
           | (Inl e, executed) \<Rightarrow>
               (None,
                [YELLOW @ '' Warning: Could not extract from Firefox '' @ cookiefile @ '': '' @ exn_str e],
                executed)))"

text \<open>
  Lines 261-298, the loop of the Chrome/Edge extractor: \<open>except OperationalError\<close> and
  \<open>except Exception\<close> both \<open>continue\<close>, so no exception leaves the loop; a row whose
  value does not decode is skipped.
\<close>

fun chrome_query_loop :: "store \<Rightarrow> query list \<Rightarrow> cookie list option \<times> query list" where
  "chrome_query_loop st [] = (None, [])"
| "chrome_query_loop st (q # qs) =
     (case fetchall st q of
        Returns rows \<Rightarrow>
          if rows \<noteq> [] then (Some (List.map_filter chrome_cookie rows), [q])
          else (case chrome_query_loop st qs of (r, executed) \<Rightarrow> (r, q # executed))
      | Raises e \<Rightarrow>
          (case chrome_query_loop st qs of (r, executed) \<Rightarrow> (r, q # executed)))"

text \<open>Lines 249-304.\<close>

definition extract_cookies_from_chrome_edge ::
  "store \<Rightarrow> string \<Rightarrow> cookie list option \<times> string list \<times> query list" where
  "extract_cookies_from_chrome_edge st cookiefile =
     (case connect_error st of
        Some e \<Rightarrow>
          (None,
           [YELLOW @ '' Warning: Could not extract from Chrome/Edge '' @ cookiefile @ '': '' @ exn_str e],
           [])
      | None \<Rightarrow>
          (case chrome_query_loop st chrome_queries of
             (r, executed) \<Rightarrow> (r, [], executed)))"

section \<open>The run \<open>extract_linkedin_cookies\<close>\<close>

text \<open>
  \<open>str.lower()\<close> and \<open>sub in s\<close>. Only the ASCII letters are lowered: the run
  compares lowered strings with \<open>firefox\<close>, \<open>chrome\<close>, \<open>edge\<close> and \<open>mozilla\<close>
  only, and no character outside ASCII lowers to a string that takes part in a match
  with one of these words.
\<close>

definition lower_char :: "char \<Rightarrow> char" where
  "lower_char c =
     (let n = (of_char c :: nat)
      in if 0x41 \<le> n \<and> n \<le> 0x5A then char_of (n + 0x20) else c)"

definition lower :: "string \<Rightarrow> string" where
  "lower s = map lower_char s"

fun contains_str :: "string \<Rightarrow> string \<Rightarrow> bool" where
  "contains_str sub [] = (sub = [])"
| "contains_str sub (c # cs) = (prefix sub (c # cs) \<or> contains_str sub cs)"

text \<open>\<open>str(n)\<close> of a length.\<close>

fun str_nat :: "nat \<Rightarrow> string" where
  "str_nat n =
     (if n < 10 then [char_of (0x30 + n)]
      else str_nat (n div 10) @ [char_of (0x30 + n mod 10)])"

text \<open>\<open>browser and browser.lower() == s\<close>\<close>

definition browser_is :: "string option \<Rightarrow> string \<Rightarrow> bool" where
  "browser_is browser s =
     (case browser of None \<Rightarrow> False | Some b \<Rightarrow> b \<noteq> [] \<and> lower b = s)"

text \<open>
  Lines 322-356: the cookie files to read, the browser's name and the lines printed.
\<close>

definition select_cookie_files ::
  "world \<Rightarrow> string option \<Rightarrow> bool \<Rightarrow> string list \<times> string \<times> string list" where
  "select_cookie_files w browser quiet =
     (if browser_is browser ''firefox'' then (get_firefox_cookie_files w, ''Firefox'', [])
      else if browser_is browser ''chrome'' then (get_chrome_cookie_files w, ''Chrome'', [])
      else if browser_is browser ''edge'' then (get_edge_cookie_files w, ''Edge'', [])
      else
        (let printed =
               (if \<not> quiet then [CYAN @ '' Auto-detecting browser with LinkedIn cookies...''] else []);
             firefox_files = get_firefox_cookie_files w
         in if firefox_files \<noteq> [] then (firefox_files, ''Firefox'', printed)
            else
              (let chrome_files = get_chrome_cookie_files w
               in if chrome_files \<noteq> [] then (chrome_files, ''Chrome'', printed)
                  else
                    (let edge_files = get_edge_cookie_files w
                     in if edge_files \<noteq> [] then (edge_files, ''Edge'', printed)
                        else ([], [], printed)))))"

text \<open>Lines 373-377: the extractor is chosen by the file's path.\<close>

definition extract_from_file ::
  "world \<Rightarrow> string \<Rightarrow> cookie list option \<times> string list \<times> query list" where
  "extract_from_file w cookiefile =
     (if contains_str ''firefox'' (lower cookiefile) \<or> contains_str ''mozilla'' (lower cookiefile)
      then extract_cookies_from_firefox (w_database w cookiefile) cookiefile
      else extract_cookies_from_chrome_edge (w_database w cookiefile) cookiefile)"

text \<open>
  Lines 368-382: the loop over the cookie files, with \<open>all_cookies\<close> and the printed
  lines as accumulators. \<open>if cookies\<close> holds for a non-empty list only.
\<close>

fun extract_loop ::
  "world \<Rightarrow> bool \<Rightarrow> string list \<Rightarrow> cookie list \<Rightarrow> string list \<Rightarrow> cookie list \<times> string list" where
  "extract_loop w quiet [] all_cookies printed = (all_cookies, printed)"
| "extract_loop w quiet (cookiefile # rest) all_cookies printed =
     (let checking = (if \<not> quiet then [CYAN @ '' Checking: '' @ cookiefile] else [])
      in case extract_from_file w cookiefile of
           (Some (c # cs), warned, executed) \<Rightarrow>
             extract_loop w quiet rest (all_cookies @ c # cs)
               (printed @ checking @ warned @
                (if \<not> quiet
                 then [GREEN @ '' Found '' @ str_nat (length (c # cs)) @ '' LinkedIn cookie(s)'']
                 else []))
         | (cookies, warned, executed) \<Rightarrow>
             extract_loop w quiet rest all_cookies (printed @ checking @ warned))"

text \<open>Lines 390-397: \<open>seen\<close> and \<open>unique_cookies\<close>.\<close>

definition cookie_key :: "cookie \<Rightarrow> string \<times> string" where
  "cookie_key cookie = (c_name cookie, c_domain cookie)"

fun dedup_loop ::
  "cookie list \<Rightarrow> (string \<times> string) set \<Rightarrow> cookie list \<Rightarrow> cookie list" where
  "dedup_loop [] seen unique_cookies = unique_cookies"
| "dedup_loop (cookie # rest) seen unique_cookies =
     (let key = cookie_key cookie
      in if key \<notin> seen
         then dedup_loop rest (insert key seen) (unique_cookies @ [cookie])
         else dedup_loop rest seen unique_cookies)"

definition remove_duplicates :: "cookie list \<Rightarrow> cookie list" where
  "remove_duplicates all_cookies = dedup_loop all_cookies {} []"

text \<open>Lines 400-401.\<close>

definition auth_cookie_names :: "string list" where
  "auth_cookie_names = [''li_at'', ''JSESSIONID'', ''bcookie'', ''bscookie'']"

definition found_auth_cookies :: "cookie list \<Rightarrow> bool" where
  "found_auth_cookies unique_cookies =
     list_ex (\<lambda>c. c_name c \<in> set auth_cookie_names) unique_cookies"

text \<open>
  What the run leaves at \<open>output_file\<close>: nothing, the JSON of the cookies, or a file
  opened for writing whose \<open>json.dump\<close> raised (a \<open>bytes\<close> value is not serialisable).
\<close>

datatype artifact = NoArtifact | Artifact "cookie list" | BrokenArtifact

definition serialisable :: "cookie \<Rightarrow> bool" where
  "serialisable c = (case c_value c of Text s \<Rightarrow> True | Bytes bs \<Rightarrow> False)"

text \<open>
  The outcome of a run: the returned path, the output file, the lines printed, and the
  value of \<open>found_auth_cookies\<close> when the run got to line 401.
\<close>

record run_result =
  rr_returned :: "string option"
  rr_artifact :: artifact
  rr_printed :: "string list"
  rr_found_auth :: "bool option"

text \<open>
  Lines 384-423: the run from the test of \<open>all_cookies\<close> on, given the lines printed
  so far.
\<close>

definition save_cookies :: "world \<Rightarrow> string \<Rightarrow> bool \<Rightarrow> cookie list \<Rightarrow> string list \<Rightarrow> run_result" where
  "save_cookies w output_file quiet all_cookies printed =
     (if all_cookies = [] then
        \<lparr>rr_returned = None, rr_artifact = NoArtifact,
         rr_printed = printed @
           (if \<not> quiet
            then [RED @ '' Error: No LinkedIn cookies found'',
                  YELLOW @ '' Please make sure you are logged into LinkedIn in your browser'']
            else []),
         rr_found_auth = None\<rparr>
      else
        (let unique_cookies = remove_duplicates all_cookies;
             found = found_auth_cookies unique_cookies;
             p4 = printed @
               (if \<not> found \<and> \<not> quiet
                then [YELLOW @ '' Warning: No authentication cookies found (li_at, JSESSIONID, etc.)'',
                      YELLOW @ '' The extracted cookies may not be sufficient for authentication'']
                else [])
         in case w_open_write w output_file of
              Some e \<Rightarrow>
                \<lparr>rr_returned = None, rr_artifact = NoArtifact,
                 rr_printed = p4 @
                   (if \<not> quiet then [RED @ '' Error saving cookies: '' @ exn_str e] else []),
                 rr_found_auth = Some found\<rparr>
            | None \<Rightarrow>
                if list_all serialisable unique_cookies then
                  \<lparr>rr_returned = Some output_file, rr_artifact = Artifact unique_cookies,
                   rr_printed = p4 @
                     (if \<not> quiet
                      then [GREEN @ '' Extracted '' @ str_nat (length unique_cookies)
                              @ '' unique LinkedIn cookie(s)'',
                            GREEN @ '' Cookies saved to: '' @ output_file]
                           @ (if found
                              then [GREEN @ '' Authentication cookies found - session should work'']
                              else [])
                      else []),
                   rr_found_auth = Some found\<rparr>
                else
                  \<lparr>rr_returned = None, rr_artifact = BrokenArtifact,
                   rr_printed = p4 @
                     (if \<not> quiet
                      then [RED @ '' Error saving cookies: Object of type bytes is not JSON serializable'']
                      else []),
                   rr_found_auth = Some found\<rparr>))"

text \<open>Lines 307-423.\<close>

definition extract_linkedin_cookies ::
  "world \<Rightarrow> string option \<Rightarrow> string \<Rightarrow> bool \<Rightarrow> run_result" where
  "extract_linkedin_cookies w browser output_file quiet =
     (let p0 = (if \<not> quiet then [CYAN @ '' Extracting LinkedIn cookies from browser...''] else [])
      in case select_cookie_files w browser quiet of
        (cookie_files, browser_name, p1) \<Rightarrow>
          if cookie_files = [] then
            \<lparr>rr_returned = None, rr_artifact = NoArtifact,
             rr_printed = p0 @ p1 @
               (if \<not> quiet
                then [RED @ '' Error: No browser cookie files found'',
                      YELLOW @ '' Please make sure you are logged into LinkedIn in your browser'']
                else []),
             rr_found_auth = None\<rparr>
          else
            (let p2 = (if \<not> quiet
                       then [CYAN @ '' Checking '' @ str_nat (length cookie_files)
                             @ '' cookie file(s) from '' @ browser_name @ ''...'']
                       else [])
             in case extract_loop w quiet cookie_files [] (p0 @ p1 @ p2) of
               (all_cookies, p3) \<Rightarrow> save_cookies w output_file quiet all_cookies p3))"

section \<open>Concrete rows, stores and hosts\<close>

definition row_www :: raw_row where
  "row_www =
     \<lparr>r_name = ''li_at'', r_value = Text ''AQEDAR'', r_host = ''www.linkedin.com'',
      r_path = None, r_expiry = Some 0, r_secure = Some 0, r_httponly = None\<rparr>"

definition row_dot :: raw_row where
  "row_dot =
     \<lparr>r_name = ''JSESSIONID'', r_value = Bytes [CHR 0x61, CHR 0xC3, CHR 0xA9],
      r_host = ''.linkedin.com'', r_path = Some [], r_expiry = Some 13350000000000000,
      r_secure = None, r_httponly = Some 1\<rparr>"

definition row_blob :: raw_row where
  "row_blob =
     \<lparr>r_name = ''li_rm'', r_value = Bytes [CHR 0x76, CHR 0x31, CHR 0x30, CHR 0xFF, CHR 0x01],
      r_host = ''localhost'', r_path = Some ''/in'', r_expiry = None,
      r_secure = Some 1, r_httponly = Some 0\<rparr>"

definition ck :: "string \<Rightarrow> string \<Rightarrow> string \<Rightarrow> cookie" where
  "ck n v d =
     \<lparr>c_name = n, c_value = Text v, c_domain = d, c_path = ''/'', c_expiry = None,
      c_secure = True, c_httpOnly = False\<rparr>"

definition row_enc :: raw_row where
  "row_enc =
     \<lparr>r_name = ''li_rm'', r_value = Bytes [CHR 0x76, CHR 0x31, CHR 0x30, CHR 0xFF, CHR 0x01],
      r_host = ''.www.linkedin.com'', r_path = Some ''/'', r_expiry = Some 13350000000000000,
      r_secure = Some 1, r_httponly = Some 1\<rparr>"

definition row_lang :: raw_row where
  "row_lang =
     \<lparr>r_name = ''lang'', r_value = Text ''v=2&lang=en-us'', r_host = ''.linkedin.com'',
      r_path = Some ''/'', r_expiry = None, r_secure = Some 1, r_httponly = Some 0\<rparr>"

definition row_bscookie :: raw_row where
  "row_bscookie =
     \<lparr>r_name = ''bscookie'', r_value = Text ''v=1&2024'', r_host = ''.www.linkedin.com'',
      r_path = Some ''/'', r_expiry = Some 1790000000, r_secure = Some 1, r_httponly = Some 1\<rparr>"

text \<open>A file that cannot be opened.\<close>

definition st_locked :: store where
  "st_locked =
     \<lparr>connect_error = Some (OperationalError ''unable to open database file''),
      fetchone = (\<lambda>q. Raises (OperationalError ''unable to open database file'')),
      fetchall = (\<lambda>q. Raises (OperationalError ''unable to open database file''))\<rparr>"

text \<open>A file that opens and is not a database: every statement raises DatabaseError.\<close>

definition st_corrupt :: store where
  "st_corrupt =
     \<lparr>connect_error = None,
      fetchone = (\<lambda>q. Raises (OtherException ''file is not a database'')),
      fetchall = (\<lambda>q. Raises (OtherException ''file is not a database''))\<rparr>"

text \<open>A Firefox store of the older schema: no column \<open>baseDomain\<close>, no table \<open>cookies\<close>.\<close>

definition st_old_firefox :: store where
  "st_old_firefox =
     \<lparr>connect_error = None,
      fetchone = (\<lambda>q. case q of
          CountMozBaseDomain \<Rightarrow> Raises (OperationalError ''no such column: baseDomain'')
        | CountMozHostLike \<Rightarrow> Returns (Some 2)
        | _ \<Rightarrow> Raises (OperationalError ''no such table: cookies'')),
      fetchall = (\<lambda>q. case q of
          MozBaseDomain \<Rightarrow> Raises (OperationalError ''no such column: baseDomain'')
        | MozHostList \<Rightarrow> Returns [row_enc, row_www]
        | MozHostLike \<Rightarrow> Returns [row_enc, row_www]
        | _ \<Rightarrow> Raises (OperationalError ''no such table: cookies''))\<rparr>"

text \<open>A Firefox store of the modern schema holding \<open>lang\<close> and \<open>bscookie\<close> only.\<close>

definition st_lang_bscookie :: store where
  "st_lang_bscookie =
     \<lparr>connect_error = None,
      fetchone = (\<lambda>q. case q of
          CountMozBaseDomain \<Rightarrow> Returns (Some 2)
        | CountMozHostLike \<Rightarrow> Returns (Some 2)
        | _ \<Rightarrow> Raises (OperationalError ''no such table: cookies'')),
      fetchall = (\<lambda>q. case q of
          MozBaseDomain \<Rightarrow> Returns [row_lang, row_bscookie]
        | MozHostList \<Rightarrow> Returns [row_lang, row_bscookie]
        | MozHostLike \<Rightarrow> Returns [row_lang, row_bscookie]
        | _ \<Rightarrow> Raises (OperationalError ''no such table: cookies''))\<rparr>"

text \<open>A Chrome store with one value that is not UTF-8 between two that are.\<close>

definition st_chrome :: store where
  "st_chrome =
     \<lparr>connect_error = None,
      fetchone = (\<lambda>q. case q of
          CountCookiesHostKeyLike \<Rightarrow> Returns (Some 3)
        | _ \<Rightarrow> Raises (OperationalError ''no such table: moz_cookies'')),
      fetchall = (\<lambda>q. case q of
          CookiesHostKeyLike \<Rightarrow> Returns [row_dot, row_enc, row_www]
        | CookiesHostKeyDottedLike \<Rightarrow> Returns [row_dot, row_enc, row_www]
        | CookiesHostKeyWww \<Rightarrow> Returns [row_www]
        | _ \<Rightarrow> Raises (OperationalError ''no such table: moz_cookies''))\<rparr>"

text \<open>A host with no browser profile at all.\<close>

definition w_bare :: world where
  "w_bare =
     \<lparr>w_system = ''Linux'',
      w_expanduser = (\<lambda>p. ''/home/u'' @ drop 1 p),
      w_glob = (\<lambda>p. []),
      w_exists = (\<lambda>p. False),
      w_database = (\<lambda>p. st_locked),
      w_open_write = (\<lambda>p. None)\<rparr>"

text \<open>A host with one Firefox profile, whose store is \<open>st_lang_bscookie\<close>.\<close>

definition w_firefox :: world where
  "w_firefox =
     \<lparr>w_system = ''Linux'',
      w_expanduser = (\<lambda>p. ''/home/u'' @ drop 1 p),
      w_glob = (\<lambda>p. if p = ''/home/u/.mozilla/firefox/*/cookies.sqlite''
                      then [''/home/u/.mozilla/firefox/x.default/cookies.sqlite''] else []),
      w_exists = (\<lambda>p. False),
      w_database = (\<lambda>p. st_lang_bscookie),
      w_open_write = (\<lambda>p. None)\<rparr>"

text \<open>A Chrome store whose first query finds the database locked.\<close>

definition st_chrome_busy :: store where
  "st_chrome_busy =
     \<lparr>connect_error = None,
      fetchone = (\<lambda>q. Raises (OperationalError ''database is locked'')),
      fetchall = (\<lambda>q. case q of
          CookiesHostKeyLike \<Rightarrow> Raises (OperationalError ''database is locked'')
        | CookiesHostKeyDottedLike \<Rightarrow> Returns [row_dot]
        | CookiesHostKeyWww \<Rightarrow> Returns []
        | _ \<Rightarrow> Raises (OperationalError ''no such table: moz_cookies''))\<rparr>"

text \<open>A host with one Firefox profile, whose store is \<open>st_old_firefox\<close>.\<close>

definition w_old_firefox :: world where
  "w_old_firefox =
     \<lparr>w_system = ''Linux'',
      w_expanduser = (\<lambda>p. ''/home/u'' @ drop 1 p),
      w_glob = (\<lambda>p. if p = ''/home/u/.mozilla/firefox/*/cookies.sqlite''
                      then [''/home/u/.mozilla/firefox/x.default/cookies.sqlite''] else []),
      w_exists = (\<lambda>p. False),
      w_database = (\<lambda>p. st_old_firefox),
      w_open_write = (\<lambda>p. None)\<rparr>"

section \<open>What the claims speak of\<close>

text \<open>
  A query "executes without a schema error and returns at least one row": \<open>fetchall\<close>
  returns a non-empty list.
\<close>

definition returns_rows :: "store \<Rightarrow> query \<Rightarrow> bool" where
  "returns_rows st q = (case fetchall st q of Returns rows \<Rightarrow> rows \<noteq> [] | Raises e \<Rightarrow> False)"

text \<open>
  A query after which the Firefox loop goes on to the next one: it returns no row, or
  raises OperationalError (a missing column or table).
\<close>

definition falls_through :: "store \<Rightarrow> query \<Rightarrow> bool" where
  "falls_through st q =
     (case fetchall st q of
        Returns rows \<Rightarrow> rows = []
      | Raises (OperationalError m) \<Rightarrow> True
      | Raises (OtherException m) \<Rightarrow> False)"

section \<open>Normalisation\<close>

lemma startswith_dot_Cons: "startswith_dot (CHR ''.'' # h)"
  by (simp add: startswith_dot_def)

text \<open>
  C8. Domain normalisation is idempotent: normalising a normalised domain, of either
  extractor, gives the same value, and a domain that already starts with a dot is left
  as it is.
\<close>

theorem domain_normalization_idempotent:
  "firefox_domain (firefox_domain h) = firefox_domain h \<and>
   chrome_domain (chrome_domain h) = chrome_domain h \<and>
   firefox_domain (chrome_domain h) = chrome_domain h \<and>
   chrome_domain (firefox_domain h) = firefox_domain h \<and>
   firefox_domain (CHR ''.'' # h) = CHR ''.'' # h \<and>
   chrome_domain (CHR ''.'' # h) = CHR ''.'' # h"
  by (simp add: firefox_domain_def chrome_domain_def startswith_dot_Cons)

text \<open>
  C4. For a row of either family that yields a cookie: the domain is the host when the
  host starts with a dot, the host with a dot in front when it contains a dot and does
  not start with one, and the host when it contains no dot; the path is "/" when the
  raw path is NULL or empty; secure is the truth value of the flag when there is one
  (so 0 stays false) and true when it is NULL; httpOnly is the truth value of the flag
  when there is one and false when it is NULL.
\<close>

theorem normalization_fields:
  "(let c = firefox_cookie row in
     (startswith_dot (r_host row) \<longrightarrow> c_domain c = r_host row) \<and>
     (\<not> startswith_dot (r_host row) \<and> contains_dot (r_host row) \<longrightarrow> c_domain c = ''.'' @ r_host row) \<and>
     (\<not> contains_dot (r_host row) \<longrightarrow> c_domain c = r_host row) \<and>
     (r_path row = None \<or> r_path row = Some [] \<longrightarrow> c_path c = ''/'') \<and>
     (\<forall>n. r_secure row = Some n \<longrightarrow> c_secure c = (n \<noteq> 0)) \<and>
     (r_secure row = None \<longrightarrow> c_secure c) \<and>
     (\<forall>n. r_httponly row = Some n \<longrightarrow> c_httpOnly c = (n \<noteq> 0)) \<and>
     (r_httponly row = None \<longrightarrow> \<not> c_httpOnly c)) \<and>
   (\<forall>c. chrome_cookie row = Some c \<longrightarrow>
     (startswith_dot (r_host row) \<longrightarrow> c_domain c = r_host row) \<and>
     (\<not> startswith_dot (r_host row) \<and> contains_dot (r_host row) \<longrightarrow> c_domain c = ''.'' @ r_host row) \<and>
     (\<not> contains_dot (r_host row) \<longrightarrow> c_domain c = r_host row) \<and>
     (r_path row = None \<or> r_path row = Some [] \<longrightarrow> c_path c = ''/'') \<and>
     (\<forall>n. r_secure row = Some n \<longrightarrow> c_secure c = (n \<noteq> 0)) \<and>
     (r_secure row = None \<longrightarrow> c_secure c) \<and>
     (\<forall>n. r_httponly row = Some n \<longrightarrow> c_httpOnly c = (n \<noteq> 0)) \<and>
     (r_httponly row = None \<longrightarrow> \<not> c_httpOnly c))"
  by (auto simp: firefox_cookie_def chrome_cookie_def firefox_domain_def chrome_domain_def
      path_or_slash_def secure_flag_def httponly_flag_def Let_def startswith_dot_def contains_dot_def
      split: option.splits list.splits)

theorem normalization_fields_witness:
  "c_domain (firefox_cookie row_www) = ''.www.linkedin.com'' \<and>
   c_path (firefox_cookie row_www) = ''/'' \<and>
   \<not> c_secure (firefox_cookie row_www) \<and>
   \<not> c_httpOnly (firefox_cookie row_www) \<and>
   c_domain (firefox_cookie row_blob) = ''localhost'' \<and>
   (\<exists>c. chrome_cookie row_dot = Some c \<and> c_domain c = ''.linkedin.com'' \<and> c_path c = ''/'' \<and>
        c_secure c \<and> c_httpOnly c)"
proof -
  have ex: "\<exists>c. chrome_cookie row_dot = Some c"
    by (simp add: chrome_cookie_def row_dot_def decode_value_def cont_byte_def)
  then obtain c where c: "chrome_cookie row_dot = Some c" ..
  have "c_domain c = ''.linkedin.com'' \<and> c_path c = ''/'' \<and> c_secure c \<and> c_httpOnly c"
    using normalization_fields [of row_dot] c
    by (simp add: row_dot_def startswith_dot_def contains_dot_def)
  with c have chrome: "\<exists>c. chrome_cookie row_dot = Some c \<and> c_domain c = ''.linkedin.com'' \<and>
      c_path c = ''/'' \<and> c_secure c \<and> c_httpOnly c"
    by blast
  have "c_domain (firefox_cookie row_www) = ''.www.linkedin.com'' \<and>
        c_path (firefox_cookie row_www) = ''/'' \<and>
        \<not> c_secure (firefox_cookie row_www) \<and> \<not> c_httpOnly (firefox_cookie row_www)"
    using normalization_fields [of row_www]
    by (simp add: row_www_def startswith_dot_def contains_dot_def Let_def)
  moreover have "c_domain (firefox_cookie row_blob) = ''localhost''"
    using normalization_fields [of row_blob]
    by (simp add: row_blob_def startswith_dot_def contains_dot_def Let_def)
  ultimately show ?thesis using chrome by simp
qed

text \<open>
  C10. A store-native expiry that is NULL or 0 becomes a null expiry of the cookie, in
  both extractors (so a Chrome session cookie with \<open>expires_utc = 0\<close> has expiry None);
  every other expiry is passed through unchanged.
\<close>

theorem falsy_expiry_is_null:
  "(r_expiry row = None \<or> r_expiry row = Some 0 \<longrightarrow> c_expiry (firefox_cookie row) = None) \<and>
   (\<forall>n. r_expiry row = Some n \<and> n \<noteq> 0 \<longrightarrow> c_expiry (firefox_cookie row) = Some n) \<and>
   (\<forall>c. chrome_cookie row = Some c \<longrightarrow>
      (r_expiry row = None \<or> r_expiry row = Some 0 \<longrightarrow> c_expiry c = None) \<and>
      (\<forall>n. r_expiry row = Some n \<and> n \<noteq> 0 \<longrightarrow> c_expiry c = Some n))"
  by (auto simp: firefox_cookie_def chrome_cookie_def expiry_or_none_def Let_def split: option.splits)

theorem falsy_expiry_is_null_witness:
  "c_expiry (firefox_cookie row_www) = None \<and>
   c_expiry (firefox_cookie row_blob) = None \<and>
   c_expiry (firefox_cookie row_dot) = Some 13350000000000000 \<and>
   (\<exists>c. chrome_cookie row_www = Some c \<and> c_expiry c = None) \<and>
   (\<exists>c. chrome_cookie row_dot = Some c \<and> c_expiry c = Some 13350000000000000)"
proof -
  obtain c where c: "chrome_cookie row_www = Some c"
    by (simp add: chrome_cookie_def row_www_def decode_value_def)
  obtain d where d: "chrome_cookie row_dot = Some d"
    by (simp add: chrome_cookie_def row_dot_def decode_value_def cont_byte_def)
  have "c_expiry c = None"
    using falsy_expiry_is_null [of row_www] c by (simp add: row_www_def)
  moreover have "c_expiry d = Some 13350000000000000"
    using falsy_expiry_is_null [of row_dot] d by (simp add: row_dot_def)
  moreover have "c_expiry (firefox_cookie row_www) = None"
    using falsy_expiry_is_null [of row_www] by (simp add: row_www_def)
  moreover have "c_expiry (firefox_cookie row_blob) = None"
    using falsy_expiry_is_null [of row_blob] by (simp add: row_blob_def)
  moreover have "c_expiry (firefox_cookie row_dot) = Some 13350000000000000"
    using falsy_expiry_is_null [of row_dot] by (simp add: row_dot_def)
  ultimately show ?thesis using c d by simp
qed

section \<open>Deduplication\<close>

lemma dedup_loop_acc: "dedup_loop xs seen acc = acc @ dedup_loop xs seen []"
proof (induction xs arbitrary: seen acc)
  case Nil
  show ?case by simp
next
  case (Cons c cs)
  have a: "dedup_loop cs (insert (cookie_key c) seen) (acc @ [c])
             = (acc @ [c]) @ dedup_loop cs (insert (cookie_key c) seen) []"
    by (rule Cons.IH)
  have b: "dedup_loop cs (insert (cookie_key c) seen) ([] @ [c])
             = ([] @ [c]) @ dedup_loop cs (insert (cookie_key c) seen) []"
    by (rule Cons.IH)
  have c: "dedup_loop cs seen acc = acc @ dedup_loop cs seen []"
    by (rule Cons.IH)
  show ?case using a b c by (simp add: Let_def)
qed

lemma dedup_loop_Cons:
  "dedup_loop (c # cs) seen [] =
     (if cookie_key c \<notin> seen then c # dedup_loop cs (insert (cookie_key c) seen) []
      else dedup_loop cs seen [])"
  using dedup_loop_acc [of cs "insert (cookie_key c) seen" "[c]"] by (simp add: Let_def)

lemma dedup_loop_keys:
  "set (map cookie_key (dedup_loop xs seen [])) = set (map cookie_key xs) - seen"
proof (induction xs arbitrary: seen)
  case Nil
  show ?case by simp
next
  case (Cons c cs)
  show ?case unfolding dedup_loop_Cons using Cons.IH by auto
qed

lemma dedup_loop_distinct: "distinct (map cookie_key (dedup_loop xs seen []))"
proof (induction xs arbitrary: seen)
  case Nil
  show ?case by simp
next
  case (Cons c cs)
  show ?case
    unfolding dedup_loop_Cons
    using Cons.IH dedup_loop_keys [of cs "insert (cookie_key c) seen"]
    by auto
qed

lemma dedup_loop_first:
  "c \<in> set (dedup_loop xs seen []) \<Longrightarrow> find (\<lambda>x. cookie_key x = cookie_key c) xs = Some c"
proof (induction xs arbitrary: seen)
  case Nil
  then show ?case by simp
next
  case (Cons x xs)
  show ?case
  proof (cases "cookie_key x \<in> seen")
    case True
    with Cons.prems have m: "c \<in> set (dedup_loop xs seen [])"
      by (simp add: dedup_loop_Cons del: dedup_loop.simps)
    then have "cookie_key c \<in> set (map cookie_key (dedup_loop xs seen []))" by simp
    then have "cookie_key c \<notin> seen" unfolding dedup_loop_keys by simp
    with True have "cookie_key x \<noteq> cookie_key c" by auto
    with Cons.IH [OF m] show ?thesis by simp
  next
    case False
    with Cons.prems have "c = x \<or> c \<in> set (dedup_loop xs (insert (cookie_key x) seen) [])"
      by (simp add: dedup_loop_Cons del: dedup_loop.simps)
    then show ?thesis
    proof
      assume "c = x"
      then show ?thesis by simp
    next
      assume m: "c \<in> set (dedup_loop xs (insert (cookie_key x) seen) [])"
      then have "cookie_key c \<in> set (map cookie_key (dedup_loop xs (insert (cookie_key x) seen) []))"
        by simp
      then have "cookie_key c \<noteq> cookie_key x" unfolding dedup_loop_keys by simp
      with Cons.IH [OF m] show ?thesis by simp
    qed
  qed
qed

lemma dedup_loop_subseq: "subseq (dedup_loop xs seen []) xs"
proof (induction xs arbitrary: seen)
  case Nil
  show ?case by simp
next
  case (Cons c cs)
  have "subseq (dedup_loop cs seen []) (c # cs)"
    using Cons.IH [of seen] by (rule list_emb_Cons)
  moreover have "subseq (c # dedup_loop cs (insert (cookie_key c) seen) []) (c # cs)"
    using Cons.IH [of "insert (cookie_key c) seen"] by simp
  ultimately show ?case unfolding dedup_loop_Cons by simp
qed

lemma cookie_key_fun: "cookie_key = (\<lambda>c. (c_name c, c_domain c))"
  by (rule ext) (simp add: cookie_key_def)

lemma dedup_loop_first_kept:
  assumes i: "i < length xs"
    and first: "\<forall>j<i. cookie_key (xs ! j) \<noteq> cookie_key (xs ! i)"
  shows "xs ! i \<in> set (dedup_loop xs {} [])"
proof -
  from i have "cookie_key (xs ! i) \<in> set (map cookie_key xs)" by simp
  then have "cookie_key (xs ! i) \<in> set (map cookie_key (dedup_loop xs {} []))"
    by (simp only: dedup_loop_keys Diff_empty)
  then obtain c where c: "c \<in> set (dedup_loop xs {} [])" "cookie_key c = cookie_key (xs ! i)"
    by auto
  from dedup_loop_first [OF c(1)] have "find (\<lambda>x. cookie_key x = cookie_key c) xs = Some c" .
  then obtain k where k: "k < length xs" "cookie_key (xs ! k) = cookie_key c" "c = xs ! k"
      "\<forall>j<k. cookie_key (xs ! j) \<noteq> cookie_key c"
    unfolding find_Some_iff by blast
  have "k = i"
  proof (rule ccontr)
    assume "k \<noteq> i"
    then consider "k < i" | "i < k" by linarith
    then show False
    proof cases
      case 1
      with first have "cookie_key (xs ! k) \<noteq> cookie_key (xs ! i)" by simp
      with k(2) c(2) show False by simp
    next
      case 2
      with k(4) have "cookie_key (xs ! i) \<noteq> cookie_key c" by simp
      with c(2) show False by simp
    qed
  qed
  with k(3) c(1) show ?thesis by simp
qed

text \<open>
  C3. The deduplicated list has exactly one cookie for each pair of name and domain of
  the extracted cookies: the pairs of the result are distinct and are those of the
  input, so two cookies that differ in name or in domain are both represented. Each
  retained cookie is the first one of the input with its name and domain, every cookie
  of the input that has no earlier cookie with the same name and domain is retained,
  the later ones are left out without any other effect, and the retained cookies keep
  the order of the input.
\<close>

theorem remove_duplicates_first_per_key:
  "distinct (map (\<lambda>c. (c_name c, c_domain c)) (remove_duplicates all_cookies)) \<and>
   set (map (\<lambda>c. (c_name c, c_domain c)) (remove_duplicates all_cookies))
     = set (map (\<lambda>c. (c_name c, c_domain c)) all_cookies) \<and>
   (\<forall>c \<in> set (remove_duplicates all_cookies).
      find (\<lambda>x. c_name x = c_name c \<and> c_domain x = c_domain c) all_cookies = Some c) \<and>
   (\<forall>i < length all_cookies.
      (\<forall>j < i. c_name (all_cookies ! j) \<noteq> c_name (all_cookies ! i) \<or>
                c_domain (all_cookies ! j) \<noteq> c_domain (all_cookies ! i))
      \<longrightarrow> all_cookies ! i \<in> set (remove_duplicates all_cookies)) \<and>
   subseq (remove_duplicates all_cookies) all_cookies"
proof -
  have a: "distinct (map (\<lambda>c. (c_name c, c_domain c)) (remove_duplicates all_cookies))"
    using dedup_loop_distinct [of all_cookies "{}"]
    unfolding remove_duplicates_def cookie_key_fun .
  have b: "set (map (\<lambda>c. (c_name c, c_domain c)) (remove_duplicates all_cookies))
     = set (map (\<lambda>c. (c_name c, c_domain c)) all_cookies)"
    using dedup_loop_keys [of all_cookies "{}"]
    unfolding remove_duplicates_def cookie_key_fun by simp
  have c: "\<forall>c \<in> set (remove_duplicates all_cookies).
      find (\<lambda>x. c_name x = c_name c \<and> c_domain x = c_domain c) all_cookies = Some c"
    using dedup_loop_first [of _ all_cookies "{}"]
    unfolding remove_duplicates_def cookie_key_fun by simp
  have d: "\<forall>i < length all_cookies.
      (\<forall>j < i. c_name (all_cookies ! j) \<noteq> c_name (all_cookies ! i) \<or>
                c_domain (all_cookies ! j) \<noteq> c_domain (all_cookies ! i))
      \<longrightarrow> all_cookies ! i \<in> set (remove_duplicates all_cookies)"
    using dedup_loop_first_kept [of _ all_cookies]
    unfolding remove_duplicates_def cookie_key_fun by simp
  have e: "subseq (remove_duplicates all_cookies) all_cookies"
    unfolding remove_duplicates_def by (rule dedup_loop_subseq)
  from a b c d e show ?thesis by blast
qed

theorem remove_duplicates_first_per_key_witness:
  "remove_duplicates
     [ck ''JSESSIONID'' ''ajax:1'' ''.linkedin.com'',
      ck ''JSESSIONID'' ''ajax:9'' ''.www.linkedin.com'',
      ck ''lang'' ''v=2'' ''.linkedin.com'',
      ck ''JSESSIONID'' ''ajax:2'' ''.linkedin.com'']
     = [ck ''JSESSIONID'' ''ajax:1'' ''.linkedin.com'',
        ck ''JSESSIONID'' ''ajax:9'' ''.www.linkedin.com'',
        ck ''lang'' ''v=2'' ''.linkedin.com''] \<and>
   ck ''JSESSIONID'' ''ajax:9'' ''.www.linkedin.com''
     \<in> set (remove_duplicates
         [ck ''JSESSIONID'' ''ajax:1'' ''.linkedin.com'',
          ck ''JSESSIONID'' ''ajax:9'' ''.www.linkedin.com'',
          ck ''lang'' ''v=2'' ''.linkedin.com'',
          ck ''JSESSIONID'' ''ajax:2'' ''.linkedin.com'']) \<and>
   find (\<lambda>x. c_name x = ''JSESSIONID'' \<and> c_domain x = ''.linkedin.com'')
     [ck ''JSESSIONID'' ''ajax:1'' ''.linkedin.com'',
      ck ''JSESSIONID'' ''ajax:9'' ''.www.linkedin.com'',
      ck ''lang'' ''v=2'' ''.linkedin.com'',
      ck ''JSESSIONID'' ''ajax:2'' ''.linkedin.com'']
     = Some (ck ''JSESSIONID'' ''ajax:1'' ''.linkedin.com'')"
proof -
  let ?all = "[ck ''JSESSIONID'' ''ajax:1'' ''.linkedin.com'',
      ck ''JSESSIONID'' ''ajax:9'' ''.www.linkedin.com'',
      ck ''lang'' ''v=2'' ''.linkedin.com'',
      ck ''JSESSIONID'' ''ajax:2'' ''.linkedin.com'']"
  note t = remove_duplicates_first_per_key [of ?all]
  have run: "remove_duplicates ?all
      = [ck ''JSESSIONID'' ''ajax:1'' ''.linkedin.com'',
         ck ''JSESSIONID'' ''ajax:9'' ''.www.linkedin.com'',
         ck ''lang'' ''v=2'' ''.linkedin.com'']"
    by (simp add: remove_duplicates_def cookie_key_def ck_def)
  have "(1::nat) < length ?all \<and>
      (\<forall>j < (1::nat). c_name (?all ! j) \<noteq> c_name (?all ! 1) \<or> c_domain (?all ! j) \<noteq> c_domain (?all ! 1))"
    by (simp add: ck_def)
  with t have "?all ! 1 \<in> set (remove_duplicates ?all)" by blast
  then have second: "ck ''JSESSIONID'' ''ajax:9'' ''.www.linkedin.com'' \<in> set (remove_duplicates ?all)"
    by simp
  have "ck ''JSESSIONID'' ''ajax:1'' ''.linkedin.com'' \<in> set (remove_duplicates ?all)"
    by (simp add: run)
  with t have "find (\<lambda>x. c_name x = c_name (ck ''JSESSIONID'' ''ajax:1'' ''.linkedin.com'') \<and>
        c_domain x = c_domain (ck ''JSESSIONID'' ''ajax:1'' ''.linkedin.com'')) ?all
      = Some (ck ''JSESSIONID'' ''ajax:1'' ''.linkedin.com'')"
    by blast
  then have first: "find (\<lambda>x. c_name x = ''JSESSIONID'' \<and> c_domain x = ''.linkedin.com'') ?all
      = Some (ck ''JSESSIONID'' ''ajax:1'' ''.linkedin.com'')"
    by (simp add: ck_def)
  from run second first show ?thesis by simp
qed

section \<open>Ranking\<close>

lemma prioritize_loop_filter:
  "prioritize_loop probe xs a b = (a @ filter probe xs, b @ filter (\<lambda>f. \<not> probe f) xs)"
  by (induction xs arbitrary: a b) simp_all

lemma prioritize_filter:
  "prioritize probe xs = filter probe xs @ filter (\<lambda>f. \<not> probe f) xs"
  by (simp add: prioritize_def prioritize_loop_filter)

lemma partition_confirmed_first:
  assumes "i < j" and "j < length (filter p xs @ filter (\<lambda>f. \<not> p f) xs)"
    and "p ((filter p xs @ filter (\<lambda>f. \<not> p f) xs) ! j)"
  shows "p ((filter p xs @ filter (\<lambda>f. \<not> p f) xs) ! i)"
proof -
  let ?A = "filter p xs" and ?B = "filter (\<lambda>f. \<not> p f) xs"
  have "j < length ?A"
  proof (rule ccontr)
    assume "\<not> j < length ?A"
    then have ge: "length ?A \<le> j" by simp
    with assms(2) have lt: "j - length ?A < length ?B" by simp
    from ge have "(?A @ ?B) ! j = ?B ! (j - length ?A)" by (simp add: nth_append)
    moreover from lt have "?B ! (j - length ?A) \<in> set ?B" by (rule nth_mem)
    ultimately have "\<not> p ((?A @ ?B) ! j)" by simp
    with assms(3) show False by simp
  qed
  with assms(1) have i: "i < length ?A" by simp
  then have "(?A @ ?B) ! i = ?A ! i" by (simp add: nth_append)
  moreover from i have "?A ! i \<in> set ?A" by (rule nth_mem)
  ultimately show ?thesis by simp
qed

text \<open>
  C7. The ranking of a family's candidate files is a stable two-bucket partition: the
  files the probe confirmed, in enumeration order, followed by the others, in
  enumeration order; so whenever a position of the ranking holds a confirmed file, every
  earlier position does too. This is what the three locators return.
\<close>

theorem ranking_is_stable_partition:
  "prioritize probe files = filter probe files @ filter (\<lambda>f. \<not> probe f) files \<and>
   (\<forall>i j. i < j \<and> j < length (prioritize probe files) \<and> probe (prioritize probe files ! j)
      \<longrightarrow> probe (prioritize probe files ! i)) \<and>
   get_firefox_cookie_files w =
     filter (firefox_probe w) (firefox_all_cookiefiles w)
     @ filter (\<lambda>f. \<not> firefox_probe w f) (firefox_all_cookiefiles w) \<and>
   get_chrome_cookie_files w =
     filter (chromium_probe w) (chrome_cookie_files w)
     @ filter (\<lambda>f. \<not> chromium_probe w f) (chrome_cookie_files w) \<and>
   get_edge_cookie_files w =
     filter (chromium_probe w) (edge_cookie_files w)
     @ filter (\<lambda>f. \<not> chromium_probe w f) (edge_cookie_files w)"
proof -
  have "\<forall>i j. i < j \<and> j < length (prioritize probe files) \<and> probe (prioritize probe files ! j)
      \<longrightarrow> probe (prioritize probe files ! i)"
    unfolding prioritize_filter using partition_confirmed_first [of _ _ probe files] by blast
  moreover have "get_firefox_cookie_files w =
     filter (firefox_probe w) (firefox_all_cookiefiles w)
     @ filter (\<lambda>f. \<not> firefox_probe w f) (firefox_all_cookiefiles w)"
    by (simp add: get_firefox_cookie_files_def prioritize_filter Let_def)
  ultimately show ?thesis
    by (simp add: prioritize_filter get_chrome_cookie_files_def get_edge_cookie_files_def)
qed

theorem ranking_is_stable_partition_witness:
  "prioritize (\<lambda>f. f = ''b'' \<or> f = ''d'') [''a'', ''b'', ''c'', ''d''] = [''b'', ''d'', ''a'', ''c''] \<and>
   prioritize (\<lambda>f. f = ''b'' \<or> f = ''d'') [''a'', ''b'', ''c'', ''d''] ! 0 = ''b''"
proof -
  let ?p = "\<lambda>f. f = ''b'' \<or> f = ''d''"
  let ?r = "prioritize ?p [''a'', ''b'', ''c'', ''d'']"
  have eq: "?r = [''b'', ''d'', ''a'', ''c'']"
    using ranking_is_stable_partition [of ?p "[''a'', ''b'', ''c'', ''d'']"] by simp
  have "(0::nat) < 1 \<and> 1 < length ?r \<and> ?p (?r ! 1)" by (simp add: eq)
  with ranking_is_stable_partition [of ?p "[''a'', ''b'', ''c'', ''d'']"]
  have "?p (?r ! 0)" by blast
  then have "?r ! 0 = ''b''" by (simp add: eq)
  with eq show ?thesis by simp
qed

section \<open>The probe\<close>

text \<open>
  C6. The probe prints nothing and always returns a truth value: every exception that
  leaves its body is turned into False, in particular a failing \<open>connect\<close>, a statement
  that raises something other than OperationalError, and a fallback or Chrome statement
  that raises anything. It returns True only when the file opened and a COUNT statement
  returned a count above zero (for Firefox the baseDomain statement, or the host
  statement after an OperationalError of the first).
\<close>

theorem probe_swallows_errors:
  "snd (has_linkedin_cookies st is_firefox) = [] \<and>
   (\<forall>e. probe_body st is_firefox = Inl e \<longrightarrow> has_linkedin_cookies st is_firefox = (False, [])) \<and>
   (\<forall>e. connect_error st = Some e \<longrightarrow> has_linkedin_cookies st is_firefox = (False, [])) \<and>
   (\<forall>m. fetchone st CountMozBaseDomain = Raises (OtherException m)
      \<longrightarrow> has_linkedin_cookies st True = (False, [])) \<and>
   (\<forall>m e. fetchone st CountMozBaseDomain = Raises (OperationalError m) \<and>
          fetchone st CountMozHostLike = Raises e
      \<longrightarrow> has_linkedin_cookies st True = (False, [])) \<and>
   (\<forall>e. fetchone st CountCookiesHostKeyLike = Raises e
      \<longrightarrow> has_linkedin_cookies st False = (False, [])) \<and>
   (fst (has_linkedin_cookies st True) \<longleftrightarrow>
      connect_error st = None \<and>
      ((\<exists>n. fetchone st CountMozBaseDomain = Returns (Some n) \<and> 0 < n) \<or>
       (\<exists>m n. fetchone st CountMozBaseDomain = Raises (OperationalError m) \<and>
              fetchone st CountMozHostLike = Returns (Some n) \<and> 0 < n))) \<and>
   (fst (has_linkedin_cookies st False) \<longleftrightarrow>
      connect_error st = None \<and>
      (\<exists>n. fetchone st CountCookiesHostKeyLike = Returns (Some n) \<and> 0 < n))"
  by (auto simp: has_linkedin_cookies_def probe_body_def counted_def
      split: option.splits outcome.splits exn.splits sum.splits if_splits)

theorem probe_swallows_errors_witness:
  "has_linkedin_cookies st_locked True = (False, []) \<and>
   has_linkedin_cookies st_locked False = (False, []) \<and>
   has_linkedin_cookies st_corrupt True = (False, []) \<and>
   has_linkedin_cookies st_corrupt False = (False, []) \<and>
   has_linkedin_cookies st_old_firefox False = (False, []) \<and>
   fst (has_linkedin_cookies st_old_firefox True) \<and>
   fst (has_linkedin_cookies st_chrome False)"
proof -
  have "has_linkedin_cookies st_locked True = (False, [])"
    using probe_swallows_errors [of st_locked True] by (simp add: st_locked_def)
  moreover have "has_linkedin_cookies st_locked False = (False, [])"
    using probe_swallows_errors [of st_locked False] by (simp add: st_locked_def)
  moreover have "has_linkedin_cookies st_corrupt True = (False, [])"
    using probe_swallows_errors [of st_corrupt True] by (simp add: st_corrupt_def)
  moreover have "has_linkedin_cookies st_corrupt False = (False, [])"
    using probe_swallows_errors [of st_corrupt False] by (simp add: st_corrupt_def)
  moreover have "has_linkedin_cookies st_old_firefox False = (False, [])"
    using probe_swallows_errors [of st_old_firefox False] by (simp add: st_old_firefox_def)
  moreover have "fst (has_linkedin_cookies st_old_firefox True)"
    using probe_swallows_errors [of st_old_firefox True] by (simp add: st_old_firefox_def)
  moreover have "fst (has_linkedin_cookies st_chrome False)"
    using probe_swallows_errors [of st_chrome False] by (simp add: st_chrome_def)
  ultimately show ?thesis by simp
qed

section \<open>Ordered query fallback\<close>

lemma firefox_query_loop_trace:
  "firefox_query_loop st qs = (r, executed) \<Longrightarrow>
     prefix executed qs \<and>
     (\<forall>pre q post. executed = pre @ q # post \<and> returns_rows st q \<longrightarrow>
        post = [] \<and> (\<exists>rows. fetchall st q = Returns rows \<and> r = Inr (Some (map firefox_cookie rows)))) \<and>
     (\<forall>cs. r = Inr (Some cs) \<longrightarrow> executed \<noteq> [] \<and> returns_rows st (last executed))"
proof (induction qs arbitrary: r executed)
  case Nil
  then show ?case by auto
next
  case (Cons q qs)
  show ?case
  proof (cases "returns_rows st q")
    case True
    then obtain rows where rows: "fetchall st q = Returns rows" "rows \<noteq> []"
      by (auto simp: returns_rows_def split: outcome.splits)
    with Cons.prems have "r = Inr (Some (map firefox_cookie rows))" "executed = [q]"
      by simp_all
    with rows True show ?thesis by (simp add: Cons_eq_append_conv)
  next
    case False
    show ?thesis
    proof (cases "\<exists>m. fetchall st q = Raises (OtherException m)")
      case True
      then obtain m where "fetchall st q = Raises (OtherException m)" ..
      with Cons.prems have "r = Inl (OtherException m)" "executed = [q]" by simp_all
      with False show ?thesis by (simp add: Cons_eq_append_conv)
    next
      case other: False
      obtain r' ex' where rec: "firefox_query_loop st qs = (r', ex')"
        by (cases "firefox_query_loop st qs")
      from False other rec Cons.prems have eq: "r = r'" "executed = q # ex'"
        by (auto simp: returns_rows_def split: outcome.splits exn.splits if_splits)
      note ih = Cons.IH [OF rec]
      have "\<forall>pre q' post. q # ex' = pre @ q' # post \<and> returns_rows st q' \<longrightarrow>
        post = [] \<and> (\<exists>rows. fetchall st q' = Returns rows \<and> r' = Inr (Some (map firefox_cookie rows)))"
      proof (intro allI impI)
        fix pre q' post
        assume a: "q # ex' = pre @ q' # post \<and> returns_rows st q'"
        with False have "pre \<noteq> []" by (cases pre) auto
        then obtain pre' where "pre = q # pre'" "ex' = pre' @ q' # post"
          using a by (cases pre) auto
        with ih a show "post = [] \<and> (\<exists>rows. fetchall st q' = Returns rows \<and> r' = Inr (Some (map firefox_cookie rows)))"
          by blast
      qed
      moreover have "\<forall>cs. r' = Inr (Some cs) \<longrightarrow> q # ex' \<noteq> [] \<and> returns_rows st (last (q # ex'))"
        using ih by auto
      moreover have "prefix (q # ex') (q # qs)" using ih by simp
      ultimately show ?thesis unfolding eq by blast
    qed
  qed
qed

lemma chrome_query_loop_trace:
  "chrome_query_loop st qs = (r, executed) \<Longrightarrow>
     prefix executed qs \<and>
     (\<forall>pre q post. executed = pre @ q # post \<and> returns_rows st q \<longrightarrow>
        post = [] \<and> (\<exists>rows. fetchall st q = Returns rows \<and> r = Some (List.map_filter chrome_cookie rows))) \<and>
     (\<forall>cs. r = Some cs \<longrightarrow> executed \<noteq> [] \<and> returns_rows st (last executed))"
proof (induction qs arbitrary: r executed)
  case Nil
  then show ?case by auto
next
  case (Cons q qs)
  show ?case
  proof (cases "returns_rows st q")
    case True
    then obtain rows where rows: "fetchall st q = Returns rows" "rows \<noteq> []"
      by (auto simp: returns_rows_def split: outcome.splits)
    with Cons.prems have "r = Some (List.map_filter chrome_cookie rows)" "executed = [q]"
      by simp_all
    with rows True show ?thesis by (simp add: Cons_eq_append_conv)
  next
    case False
    obtain r' ex' where rec: "chrome_query_loop st qs = (r', ex')"
      by (cases "chrome_query_loop st qs")
    from False rec Cons.prems have eq: "r = r'" "executed = q # ex'"
      by (auto simp: returns_rows_def split: outcome.splits if_splits)
    note ih = Cons.IH [OF rec]
    have "\<forall>pre q' post. q # ex' = pre @ q' # post \<and> returns_rows st q' \<longrightarrow>
      post = [] \<and> (\<exists>rows. fetchall st q' = Returns rows \<and> r' = Some (List.map_filter chrome_cookie rows))"
    proof (intro allI impI)
      fix pre q' post
      assume a: "q # ex' = pre @ q' # post \<and> returns_rows st q'"
      with False have "pre \<noteq> []" by (cases pre) auto
      then obtain pre' where "pre = q # pre'" "ex' = pre' @ q' # post"
        using a by (cases pre) auto
      with ih a show "post = [] \<and> (\<exists>rows. fetchall st q' = Returns rows \<and> r' = Some (List.map_filter chrome_cookie rows))"
        by blast
    qed
    moreover have "\<forall>cs. r' = Some cs \<longrightarrow> q # ex' \<noteq> [] \<and> returns_rows st (last (q # ex'))"
      using ih by auto
    moreover have "prefix (q # ex') (q # qs)" using ih by simp
    ultimately show ?thesis unfolding eq by blast
  qed
qed

lemma extract_firefox_cases:
  "extract_cookies_from_firefox st f = (res, printed, executed) \<Longrightarrow>
     (connect_error st \<noteq> None \<and> res = None \<and> executed = []) \<or>
     (connect_error st = None \<and>
      (\<exists>r. firefox_query_loop st firefox_queries = (r, executed) \<and>
           res = (case r of Inr x \<Rightarrow> x | Inl e \<Rightarrow> None)))"
  by (auto simp: extract_cookies_from_firefox_def split: option.splits prod.splits sum.splits)

lemma extract_chrome_cases:
  "extract_cookies_from_chrome_edge st f = (res, printed, executed) \<Longrightarrow>
     (connect_error st \<noteq> None \<and> res = None \<and> executed = []) \<or>
     (connect_error st = None \<and> printed = [] \<and> chrome_query_loop st chrome_queries = (res, executed))"
  by (auto simp: extract_cookies_from_chrome_edge_def split: option.splits prod.splits)

lemma chrome_query_loop_first:
  "\<forall>p \<in> set pre. \<not> returns_rows st p \<Longrightarrow> fetchall st q = Returns rows \<Longrightarrow> rows \<noteq> [] \<Longrightarrow>
     chrome_query_loop st (pre @ q # post) = (Some (List.map_filter chrome_cookie rows), pre @ [q])"
proof (induction pre)
  case Nil
  then show ?case by simp
next
  case (Cons p pre)
  then have "\<not> returns_rows st p" by simp
  moreover from Cons have
    "chrome_query_loop st (pre @ q # post) = (Some (List.map_filter chrome_cookie rows), pre @ [q])"
    by simp
  ultimately show ?case
    by (auto simp: returns_rows_def split: outcome.splits)
qed

lemma chrome_query_loop_none:
  "\<forall>p \<in> set qs. \<not> returns_rows st p \<Longrightarrow> chrome_query_loop st qs = (None, qs)"
proof (induction qs)
  case Nil
  show ?case by simp
next
  case (Cons p qs)
  then have "\<not> returns_rows st p" and "chrome_query_loop st qs = (None, qs)" by simp_all
  then show ?case by (auto simp: returns_rows_def split: outcome.splits)
qed

lemma firefox_step_falls_through:
  "falls_through st p \<Longrightarrow>
     firefox_query_loop st (p # qs) =
       (case firefox_query_loop st qs of (r, executed) \<Rightarrow> (r, p # executed))"
  by (auto simp: falls_through_def split: outcome.splits exn.splits)

lemma firefox_query_loop_first:
  "\<forall>p \<in> set pre. falls_through st p \<Longrightarrow> fetchall st q = Returns rows \<Longrightarrow> rows \<noteq> [] \<Longrightarrow>
     firefox_query_loop st (pre @ q # post) = (Inr (Some (map firefox_cookie rows)), pre @ [q])"
proof (induction pre)
  case Nil
  then show ?case by simp
next
  case (Cons p pre)
  then have f: "falls_through st p" by simp
  from Cons have
    "firefox_query_loop st (pre @ q # post) = (Inr (Some (map firefox_cookie rows)), pre @ [q])"
    by simp
  with firefox_step_falls_through [OF f, of "pre @ q # post"] show ?case by simp
qed

lemma firefox_query_loop_abort:
  "\<forall>p \<in> set pre. falls_through st p \<Longrightarrow> fetchall st q = Raises (OtherException m) \<Longrightarrow>
     firefox_query_loop st (pre @ q # post) = (Inl (OtherException m), pre @ [q])"
proof (induction pre)
  case Nil
  then show ?case by simp
next
  case (Cons p pre)
  then have f: "falls_through st p" by simp
  from Cons have
    "firefox_query_loop st (pre @ q # post) = (Inl (OtherException m), pre @ [q])"
    by simp
  with firefox_step_falls_through [OF f, of "pre @ q # post"] show ?case by simp
qed

lemma firefox_query_loop_none:
  "\<forall>p \<in> set qs. falls_through st p \<Longrightarrow> firefox_query_loop st qs = (Inr None, qs)"
proof (induction qs)
  case Nil
  show ?case by simp
next
  case (Cons p qs)
  then have f: "falls_through st p" and "firefox_query_loop st qs = (Inr None, qs)" by simp_all
  with firefox_step_falls_through [OF f, of qs] show ?case by simp
qed

lemma executed_queries_bounded:
  "(extract_cookies_from_firefox st f = (res, printed, executed) \<longrightarrow>
      prefix executed [MozBaseDomain, MozHostList, MozHostLike] \<and>
      (\<forall>pre q post. executed = pre @ q # post \<and> returns_rows st q \<longrightarrow>
         post = [] \<and> (\<exists>rows. fetchall st q = Returns rows \<and> res = Some (map firefox_cookie rows))) \<and>
      (\<forall>cs. res = Some cs \<longrightarrow> executed \<noteq> [] \<and> returns_rows st (last executed))) \<and>
   (extract_cookies_from_chrome_edge st f = (res, printed, executed) \<longrightarrow>
      prefix executed [CookiesHostKeyLike, CookiesHostKeyDottedLike, CookiesHostKeyWww] \<and>
      (\<forall>pre q post. executed = pre @ q # post \<and> returns_rows st q \<longrightarrow>
         post = [] \<and> (\<exists>rows. fetchall st q = Returns rows \<and> res = Some (List.map_filter chrome_cookie rows))) \<and>
      (\<forall>cs. res = Some cs \<longrightarrow> executed \<noteq> [] \<and> returns_rows st (last executed)))"
proof (intro conjI impI)
  assume a: "extract_cookies_from_firefox st f = (res, printed, executed)"
  from extract_firefox_cases [OF a]
  show "prefix executed [MozBaseDomain, MozHostList, MozHostLike]"
    using firefox_query_loop_trace [of st firefox_queries _ executed]
    by (auto simp: firefox_queries_def)
  from extract_firefox_cases [OF a]
  show "\<forall>pre q post. executed = pre @ q # post \<and> returns_rows st q \<longrightarrow>
         post = [] \<and> (\<exists>rows. fetchall st q = Returns rows \<and> res = Some (map firefox_cookie rows))"
  proof
    assume "connect_error st \<noteq> None \<and> res = None \<and> executed = []"
    then show ?thesis by simp
  next
    assume "connect_error st = None \<and>
      (\<exists>r. firefox_query_loop st firefox_queries = (r, executed) \<and>
           res = (case r of Inr x \<Rightarrow> x | Inl e \<Rightarrow> None))"
    then obtain r where r: "firefox_query_loop st firefox_queries = (r, executed)"
      "res = (case r of Inr x \<Rightarrow> x | Inl e \<Rightarrow> None)" by blast
    from firefox_query_loop_trace [OF r(1)] r(2) show ?thesis by fastforce
  qed
  from extract_firefox_cases [OF a]
  show "\<forall>cs. res = Some cs \<longrightarrow> executed \<noteq> [] \<and> returns_rows st (last executed)"
  proof
    assume "connect_error st \<noteq> None \<and> res = None \<and> executed = []"
    then show ?thesis by simp
  next
    assume "connect_error st = None \<and>
      (\<exists>r. firefox_query_loop st firefox_queries = (r, executed) \<and>
           res = (case r of Inr x \<Rightarrow> x | Inl e \<Rightarrow> None))"
    then obtain r where r: "firefox_query_loop st firefox_queries = (r, executed)"
      "res = (case r of Inr x \<Rightarrow> x | Inl e \<Rightarrow> None)" by blast
    from firefox_query_loop_trace [OF r(1)] r(2) show ?thesis
      by (cases r) auto
  qed
next
  assume a: "extract_cookies_from_chrome_edge st f = (res, printed, executed)"
  from extract_chrome_cases [OF a]
  show "prefix executed [CookiesHostKeyLike, CookiesHostKeyDottedLike, CookiesHostKeyWww]"
    using chrome_query_loop_trace [of st chrome_queries res executed]
    by (auto simp: chrome_queries_def)
  from extract_chrome_cases [OF a]
  show "\<forall>pre q post. executed = pre @ q # post \<and> returns_rows st q \<longrightarrow>
         post = [] \<and> (\<exists>rows. fetchall st q = Returns rows \<and> res = Some (List.map_filter chrome_cookie rows))"
    using chrome_query_loop_trace [of st chrome_queries res executed] by auto
  from extract_chrome_cases [OF a]
  show "\<forall>cs. res = Some cs \<longrightarrow> executed \<noteq> [] \<and> returns_rows st (last executed)"
    using chrome_query_loop_trace [of st chrome_queries res executed] by auto
qed

text \<open>
  C2. Each extractor passes its queries to the store in the fixed order of its list
  (Firefox: baseDomain column, explicit host list, host substring; Chrome/Edge:
  substring \<open>%linkedin.com\<close>, dotted substring \<open>%.linkedin.com\<close>, exact host
  \<open>www.linkedin.com\<close>). The executed queries are a prefix of the list; an executed
  query that returns at least one row is the last one executed, and its rows,
  normalised, are the whole result of the store; a result is returned only in this way.
  The loop does reach that query: when the file opens and the queries before a query of
  the list all fell through (returned no row or raised a schema error; for Chrome/Edge,
  did not return rows), and this query returns rows, then exactly the queries up to it
  are executed and its rows are the result. When every query falls through, all three
  are executed and the result is None. In the Firefox extractor a query that raises
  another exception ends the loop: no later query is executed and the result is None.
\<close>

theorem ordered_query_fallback:
  "(extract_cookies_from_firefox st f = (res, printed, executed) \<longrightarrow>
      prefix executed [MozBaseDomain, MozHostList, MozHostLike] \<and>
      (\<forall>pre q post. executed = pre @ q # post \<and> returns_rows st q \<longrightarrow>
         post = [] \<and> (\<exists>rows. fetchall st q = Returns rows \<and> res = Some (map firefox_cookie rows))) \<and>
      (\<forall>cs. res = Some cs \<longrightarrow> executed \<noteq> [] \<and> returns_rows st (last executed))) \<and>
   (extract_cookies_from_chrome_edge st f = (res, printed, executed) \<longrightarrow>
      prefix executed [CookiesHostKeyLike, CookiesHostKeyDottedLike, CookiesHostKeyWww] \<and>
      (\<forall>pre q post. executed = pre @ q # post \<and> returns_rows st q \<longrightarrow>
         post = [] \<and> (\<exists>rows. fetchall st q = Returns rows \<and> res = Some (List.map_filter chrome_cookie rows))) \<and>
      (\<forall>cs. res = Some cs \<longrightarrow> executed \<noteq> [] \<and> returns_rows st (last executed))) \<and>
   (\<forall>pre q post rows.
      connect_error st = None \<and>
      [MozBaseDomain, MozHostList, MozHostLike] = pre @ q # post \<and>
      (\<forall>p \<in> set pre. falls_through st p) \<and> fetchall st q = Returns rows \<and> rows \<noteq> [] \<longrightarrow>
        extract_cookies_from_firefox st f = (Some (map firefox_cookie rows), [], pre @ [q])) \<and>
   (connect_error st = None \<and>
    (\<forall>p \<in> set [MozBaseDomain, MozHostList, MozHostLike]. falls_through st p) \<longrightarrow>
        extract_cookies_from_firefox st f = (None, [], [MozBaseDomain, MozHostList, MozHostLike])) \<and>
   (\<forall>pre q post m.
      connect_error st = None \<and>
      [MozBaseDomain, MozHostList, MozHostLike] = pre @ q # post \<and>
      (\<forall>p \<in> set pre. falls_through st p) \<and> fetchall st q = Raises (OtherException m) \<longrightarrow>
        extract_cookies_from_firefox st f
          = (None, [YELLOW @ '' Warning: Could not extract from Firefox '' @ f @ '': '' @ m], pre @ [q])) \<and>
   (\<forall>pre q post rows.
      connect_error st = None \<and>
      [CookiesHostKeyLike, CookiesHostKeyDottedLike, CookiesHostKeyWww] = pre @ q # post \<and>
      (\<forall>p \<in> set pre. \<not> returns_rows st p) \<and> fetchall st q = Returns rows \<and> rows \<noteq> [] \<longrightarrow>
        extract_cookies_from_chrome_edge st f
          = (Some (List.map_filter chrome_cookie rows), [], pre @ [q])) \<and>
   (connect_error st = None \<and>
    (\<forall>p \<in> set [CookiesHostKeyLike, CookiesHostKeyDottedLike, CookiesHostKeyWww]. \<not> returns_rows st p) \<longrightarrow>
        extract_cookies_from_chrome_edge st f
          = (None, [], [CookiesHostKeyLike, CookiesHostKeyDottedLike, CookiesHostKeyWww]))"
proof -
  note old = executed_queries_bounded [of st f res printed executed]
  from old have old1: "extract_cookies_from_firefox st f = (res, printed, executed) \<longrightarrow>
      prefix executed [MozBaseDomain, MozHostList, MozHostLike] \<and>
      (\<forall>pre q post. executed = pre @ q # post \<and> returns_rows st q \<longrightarrow>
         post = [] \<and> (\<exists>rows. fetchall st q = Returns rows \<and> res = Some (map firefox_cookie rows))) \<and>
      (\<forall>cs. res = Some cs \<longrightarrow> executed \<noteq> [] \<and> returns_rows st (last executed))"
    by (rule conjunct1)
  from old have old2: "extract_cookies_from_chrome_edge st f = (res, printed, executed) \<longrightarrow>
      prefix executed [CookiesHostKeyLike, CookiesHostKeyDottedLike, CookiesHostKeyWww] \<and>
      (\<forall>pre q post. executed = pre @ q # post \<and> returns_rows st q \<longrightarrow>
         post = [] \<and> (\<exists>rows. fetchall st q = Returns rows \<and> res = Some (List.map_filter chrome_cookie rows))) \<and>
      (\<forall>cs. res = Some cs \<longrightarrow> executed \<noteq> [] \<and> returns_rows st (last executed))"
    by (rule conjunct2)
  have new1: "\<forall>pre q post rows.
      connect_error st = None \<and>
      [MozBaseDomain, MozHostList, MozHostLike] = pre @ q # post \<and>
      (\<forall>p \<in> set pre. falls_through st p) \<and> fetchall st q = Returns rows \<and> rows \<noteq> [] \<longrightarrow>
        extract_cookies_from_firefox st f = (Some (map firefox_cookie rows), [], pre @ [q])"
  proof (intro allI impI)
    fix pre q post rows
    assume a: "connect_error st = None \<and>
      [MozBaseDomain, MozHostList, MozHostLike] = pre @ q # post \<and>
      (\<forall>p \<in> set pre. falls_through st p) \<and> fetchall st q = Returns rows \<and> rows \<noteq> []"
    then have "firefox_query_loop st (pre @ q # post)
        = (Inr (Some (map firefox_cookie rows)), pre @ [q])"
      using firefox_query_loop_first [of pre st q rows post] by blast
    moreover from a have "firefox_queries = pre @ q # post" by (simp add: firefox_queries_def)
    ultimately show "extract_cookies_from_firefox st f = (Some (map firefox_cookie rows), [], pre @ [q])"
      using a by (simp add: extract_cookies_from_firefox_def)
  qed
  have new2: "connect_error st = None \<and>
    (\<forall>p \<in> set [MozBaseDomain, MozHostList, MozHostLike]. falls_through st p) \<longrightarrow>
        extract_cookies_from_firefox st f = (None, [], [MozBaseDomain, MozHostList, MozHostLike])"
  proof
    assume a: "connect_error st = None \<and>
      (\<forall>p \<in> set [MozBaseDomain, MozHostList, MozHostLike]. falls_through st p)"
    then have "firefox_query_loop st firefox_queries = (Inr None, firefox_queries)"
      using firefox_query_loop_none [of firefox_queries st] by (simp add: firefox_queries_def)
    with a show "extract_cookies_from_firefox st f = (None, [], [MozBaseDomain, MozHostList, MozHostLike])"
      by (simp add: extract_cookies_from_firefox_def firefox_queries_def)
  qed
  have new3: "\<forall>pre q post rows.
      connect_error st = None \<and>
      [CookiesHostKeyLike, CookiesHostKeyDottedLike, CookiesHostKeyWww] = pre @ q # post \<and>
      (\<forall>p \<in> set pre. \<not> returns_rows st p) \<and> fetchall st q = Returns rows \<and> rows \<noteq> [] \<longrightarrow>
        extract_cookies_from_chrome_edge st f
          = (Some (List.map_filter chrome_cookie rows), [], pre @ [q])"
  proof (intro allI impI)
    fix pre q post rows
    assume a: "connect_error st = None \<and>
      [CookiesHostKeyLike, CookiesHostKeyDottedLike, CookiesHostKeyWww] = pre @ q # post \<and>
      (\<forall>p \<in> set pre. \<not> returns_rows st p) \<and> fetchall st q = Returns rows \<and> rows \<noteq> []"
    then have "chrome_query_loop st (pre @ q # post)
        = (Some (List.map_filter chrome_cookie rows), pre @ [q])"
      using chrome_query_loop_first [of pre st q rows post] by blast
    moreover from a have "chrome_queries = pre @ q # post" by (simp add: chrome_queries_def)
    ultimately show "extract_cookies_from_chrome_edge st f
          = (Some (List.map_filter chrome_cookie rows), [], pre @ [q])"
      using a by (simp add: extract_cookies_from_chrome_edge_def)
  qed
  have new4: "connect_error st = None \<and>
    (\<forall>p \<in> set [CookiesHostKeyLike, CookiesHostKeyDottedLike, CookiesHostKeyWww]. \<not> returns_rows st p) \<longrightarrow>
        extract_cookies_from_chrome_edge st f
          = (None, [], [CookiesHostKeyLike, CookiesHostKeyDottedLike, CookiesHostKeyWww])"
  proof
    assume a: "connect_error st = None \<and>
      (\<forall>p \<in> set [CookiesHostKeyLike, CookiesHostKeyDottedLike, CookiesHostKeyWww]. \<not> returns_rows st p)"
    then have "chrome_query_loop st chrome_queries = (None, chrome_queries)"
      using chrome_query_loop_none [of chrome_queries st] by (simp add: chrome_queries_def)
    with a show "extract_cookies_from_chrome_edge st f
          = (None, [], [CookiesHostKeyLike, CookiesHostKeyDottedLike, CookiesHostKeyWww])"
      by (simp add: extract_cookies_from_chrome_edge_def chrome_queries_def)
  qed
  have new5: "\<forall>pre q post m.
      connect_error st = None \<and>
      [MozBaseDomain, MozHostList, MozHostLike] = pre @ q # post \<and>
      (\<forall>p \<in> set pre. falls_through st p) \<and> fetchall st q = Raises (OtherException m) \<longrightarrow>
        extract_cookies_from_firefox st f
          = (None, [YELLOW @ '' Warning: Could not extract from Firefox '' @ f @ '': '' @ m], pre @ [q])"
  proof (intro allI impI)
    fix pre q post m
    assume a: "connect_error st = None \<and>
      [MozBaseDomain, MozHostList, MozHostLike] = pre @ q # post \<and>
      (\<forall>p \<in> set pre. falls_through st p) \<and> fetchall st q = Raises (OtherException m)"
    then have "firefox_query_loop st (pre @ q # post) = (Inl (OtherException m), pre @ [q])"
      using firefox_query_loop_abort [of pre st q m post] by blast
    moreover from a have "firefox_queries = pre @ q # post" by (simp add: firefox_queries_def)
    ultimately show "extract_cookies_from_firefox st f
          = (None, [YELLOW @ '' Warning: Could not extract from Firefox '' @ f @ '': '' @ m], pre @ [q])"
      using a by (simp add: extract_cookies_from_firefox_def)
  qed
  show ?thesis
    apply (intro conjI)
          apply (rule old1)
         apply (rule old2)
        apply (rule new1)
       apply (rule new2)
      apply (rule new5)
     apply (rule new3)
    apply (rule new4)
    done
qed

theorem ordered_query_fallback_witness:
  "extract_cookies_from_firefox st_old_firefox ''cookies.sqlite''
     = (Some (map firefox_cookie [row_enc, row_www]), [], [MozBaseDomain, MozHostList]) \<and>
   falls_through st_old_firefox MozBaseDomain \<and>
   returns_rows st_old_firefox MozHostList \<and>
   extract_cookies_from_chrome_edge st_chrome_busy ''Cookies''
     = (Some (List.map_filter chrome_cookie [row_dot]), [], [CookiesHostKeyLike, CookiesHostKeyDottedLike]) \<and>
   returns_rows st_chrome_busy CookiesHostKeyDottedLike \<and>
   extract_cookies_from_chrome_edge st_chrome ''Cookies''
     = (Some (List.map_filter chrome_cookie [row_dot, row_enc, row_www]), [], [CookiesHostKeyLike]) \<and>
   extract_cookies_from_firefox st_corrupt ''cookies.sqlite''
     = (None, [YELLOW @ '' Warning: Could not extract from Firefox cookies.sqlite: file is not a database''],
        [MozBaseDomain])"
proof -
  have f1: "falls_through st_old_firefox MozBaseDomain"
    by (simp add: falls_through_def st_old_firefox_def)
  have "connect_error st_old_firefox = None \<and>
      [MozBaseDomain, MozHostList, MozHostLike] = [MozBaseDomain] @ MozHostList # [MozHostLike] \<and>
      (\<forall>p \<in> set [MozBaseDomain]. falls_through st_old_firefox p) \<and>
      fetchall st_old_firefox MozHostList = Returns [row_enc, row_www] \<and> [row_enc, row_www] \<noteq> []"
    using f1 by (simp add: st_old_firefox_def)
  with ordered_query_fallback [of st_old_firefox "''cookies.sqlite''"]
  have "extract_cookies_from_firefox st_old_firefox ''cookies.sqlite''
     = (Some (map firefox_cookie [row_enc, row_www]), [], [MozBaseDomain] @ [MozHostList])"
    by blast
  then have ff: "extract_cookies_from_firefox st_old_firefox ''cookies.sqlite''
     = (Some (map firefox_cookie [row_enc, row_www]), [], [MozBaseDomain, MozHostList])"
    by simp
  have "returns_rows st_old_firefox (last [MozBaseDomain, MozHostList])"
    using ordered_query_fallback [of st_old_firefox "''cookies.sqlite''"
        "Some (map firefox_cookie [row_enc, row_www])" "[]" "[MozBaseDomain, MozHostList]"] ff
    by blast
  then have r1: "returns_rows st_old_firefox MozHostList" by simp
  have n1: "\<not> returns_rows st_chrome_busy CookiesHostKeyLike"
    by (simp add: returns_rows_def st_chrome_busy_def)
  have "connect_error st_chrome_busy = None \<and>
      [CookiesHostKeyLike, CookiesHostKeyDottedLike, CookiesHostKeyWww]
        = [CookiesHostKeyLike] @ CookiesHostKeyDottedLike # [CookiesHostKeyWww] \<and>
      (\<forall>p \<in> set [CookiesHostKeyLike]. \<not> returns_rows st_chrome_busy p) \<and>
      fetchall st_chrome_busy CookiesHostKeyDottedLike = Returns [row_dot] \<and> [row_dot] \<noteq> []"
    using n1 by (simp add: st_chrome_busy_def)
  with ordered_query_fallback [of st_chrome_busy "''Cookies''"]
  have "extract_cookies_from_chrome_edge st_chrome_busy ''Cookies''
     = (Some (List.map_filter chrome_cookie [row_dot]), [], [CookiesHostKeyLike] @ [CookiesHostKeyDottedLike])"
    by blast
  then have busy: "extract_cookies_from_chrome_edge st_chrome_busy ''Cookies''
     = (Some (List.map_filter chrome_cookie [row_dot]), [], [CookiesHostKeyLike, CookiesHostKeyDottedLike])"
    by simp
  have "returns_rows st_chrome_busy (last [CookiesHostKeyLike, CookiesHostKeyDottedLike])"
    using ordered_query_fallback [of st_chrome_busy "''Cookies''"
        "Some (List.map_filter chrome_cookie [row_dot])" "[]"
        "[CookiesHostKeyLike, CookiesHostKeyDottedLike]"] busy
    by blast
  then have r2: "returns_rows st_chrome_busy CookiesHostKeyDottedLike" by simp
  have "connect_error st_chrome = None \<and>
      [CookiesHostKeyLike, CookiesHostKeyDottedLike, CookiesHostKeyWww]
        = [] @ CookiesHostKeyLike # [CookiesHostKeyDottedLike, CookiesHostKeyWww] \<and>
      (\<forall>p \<in> set []. \<not> returns_rows st_chrome p) \<and>
      fetchall st_chrome CookiesHostKeyLike = Returns [row_dot, row_enc, row_www] \<and>
      [row_dot, row_enc, row_www] \<noteq> []"
    by (simp add: st_chrome_def)
  with ordered_query_fallback [of st_chrome "''Cookies''"]
  have "extract_cookies_from_chrome_edge st_chrome ''Cookies''
     = (Some (List.map_filter chrome_cookie [row_dot, row_enc, row_www]), [], [] @ [CookiesHostKeyLike])"
    by blast
  then have ch: "extract_cookies_from_chrome_edge st_chrome ''Cookies''
     = (Some (List.map_filter chrome_cookie [row_dot, row_enc, row_www]), [], [CookiesHostKeyLike])"
    by simp
  have "connect_error st_corrupt = None \<and>
      [MozBaseDomain, MozHostList, MozHostLike] = [] @ MozBaseDomain # [MozHostList, MozHostLike] \<and>
      (\<forall>p \<in> set []. falls_through st_corrupt p) \<and>
      fetchall st_corrupt MozBaseDomain = Raises (OtherException ''file is not a database'')"
    by (simp add: st_corrupt_def)
  with ordered_query_fallback [of st_corrupt "''cookies.sqlite''"]
  have "extract_cookies_from_firefox st_corrupt ''cookies.sqlite''
     = (None, [YELLOW @ '' Warning: Could not extract from Firefox '' @ ''cookies.sqlite'' @ '': ''
                 @ ''file is not a database''], [] @ [MozBaseDomain])"
    by blast
  then have co: "extract_cookies_from_firefox st_corrupt ''cookies.sqlite''
     = (None, [YELLOW @ '' Warning: Could not extract from Firefox cookies.sqlite: file is not a database''],
        [MozBaseDomain])"
    by simp
  from ff f1 r1 busy r2 ch co show ?thesis by simp
qed

section \<open>Values that do not decode\<close>

lemma chrome_query_loop_some:
  assumes "chrome_query_loop st qs = (Some cs, executed)"
  shows "\<exists>rows. fetchall st (last executed) = Returns rows \<and> rows \<noteq> [] \<and>
           cs = List.map_filter chrome_cookie rows"
proof -
  note t = chrome_query_loop_trace [OF assms]
  from t have ne: "executed \<noteq> []" and rr: "returns_rows st (last executed)" by auto
  from ne have "executed = butlast executed @ last executed # []" by simp
  with t rr obtain rows where rows: "fetchall st (last executed) = Returns rows"
      "Some cs = Some (List.map_filter chrome_cookie rows)"
    by blast
  from rr rows(1) have "rows \<noteq> []" by (simp add: returns_rows_def)
  with rows show ?thesis by auto
qed

lemma firefox_query_loop_some:
  assumes "firefox_query_loop st qs = (Inr (Some cs), executed)"
  shows "\<exists>rows. fetchall st (last executed) = Returns rows \<and> rows \<noteq> [] \<and>
           cs = map firefox_cookie rows"
proof -
  note t = firefox_query_loop_trace [OF assms]
  from t have ne: "executed \<noteq> []" and rr: "returns_rows st (last executed)" by auto
  from ne have "executed = butlast executed @ last executed # []" by simp
  with t rr obtain rows where rows: "fetchall st (last executed) = Returns rows"
      "(Inr (Some cs) :: exn + cookie list option) = Inr (Some (map firefox_cookie rows))"
    by blast
  from rr rows(1) have "rows \<noteq> []" by (simp add: returns_rows_def)
  with rows show ?thesis by auto
qed

lemma chrome_query_loop_total:
  "\<exists>q \<in> set qs. returns_rows st q \<Longrightarrow> \<exists>cs. fst (chrome_query_loop st qs) = Some cs"
proof (induction qs)
  case Nil
  then show ?case by simp
next
  case (Cons q qs)
  show ?case
  proof (cases "returns_rows st q")
    case True
    then show ?thesis by (auto simp: returns_rows_def split: outcome.splits)
  next
    case False
    with Cons.prems have "\<exists>q \<in> set qs. returns_rows st q" by auto
    from Cons.IH [OF this] False show ?thesis
      by (auto simp: returns_rows_def split: outcome.splits prod.splits)
  qed
qed

lemma map_filter_chrome_member:
  "r \<in> set rows \<Longrightarrow> chrome_cookie r = Some c \<Longrightarrow> c \<in> set (List.map_filter chrome_cookie rows)"
  by (force simp: List.map_filter_def)

lemma chrome_cookie_decode:
  "(decode_value (r_value r) = None \<longrightarrow> chrome_cookie r = None) \<and>
   (\<forall>v. decode_value (r_value r) = Some v \<longrightarrow>
      (\<exists>c. chrome_cookie r = Some c \<and> c_value c = Text v))"
  by (simp add: chrome_cookie_def Let_def)

text \<open>
  What each extractor does with the rows of its winning query. The Chrome/Edge extractor
  drops exactly the rows whose value is bytes that are not UTF-8: its result is made of
  the rows whose value decodes, in order and with the decoded text, it prints no
  warning, and it returns a result whenever the file opens and one of its queries
  returns rows. The Firefox extractor has no such step: every row yields a cookie whose
  value is the stored cell.
\<close>

lemma rows_of_the_winning_query:
  "(extract_cookies_from_chrome_edge st f = (Some cs, printed, executed) \<longrightarrow>
      printed = [] \<and>
      (\<exists>rows. fetchall st (last executed) = Returns rows \<and> rows \<noteq> [] \<and>
         cs = List.map_filter chrome_cookie rows \<and>
         (\<forall>r \<in> set rows.
            (decode_value (r_value r) = None \<longrightarrow> chrome_cookie r = None) \<and>
            (\<forall>v. decode_value (r_value r) = Some v \<longrightarrow>
               (\<exists>c \<in> set cs. chrome_cookie r = Some c \<and> c_value c = Text v))))) \<and>
   (connect_error st = None \<and> (\<exists>q \<in> set chrome_queries. returns_rows st q) \<longrightarrow>
      (\<exists>cs'. extract_cookies_from_chrome_edge st f = (Some cs', [], snd (chrome_query_loop st chrome_queries)))) \<and>
   (extract_cookies_from_firefox st f = (Some cs, printed, executed) \<longrightarrow>
      (\<exists>rows. fetchall st (last executed) = Returns rows \<and> rows \<noteq> [] \<and>
         cs = map firefox_cookie rows \<and>
         (\<forall>i < length rows. c_value (cs ! i) = r_value (rows ! i))))"
proof (intro conjI impI)
  assume a: "extract_cookies_from_chrome_edge st f = (Some cs, printed, executed)"
  from extract_chrome_cases [OF a]
  have p: "printed = []" and l: "chrome_query_loop st chrome_queries = (Some cs, executed)"
    by auto
  from p show "printed = []" .
  from chrome_query_loop_some [OF l] obtain rows where
    rows: "fetchall st (last executed) = Returns rows" "rows \<noteq> []"
      "cs = List.map_filter chrome_cookie rows"
    by blast
  have "\<forall>r \<in> set rows.
            (decode_value (r_value r) = None \<longrightarrow> chrome_cookie r = None) \<and>
            (\<forall>v. decode_value (r_value r) = Some v \<longrightarrow>
               (\<exists>c \<in> set cs. chrome_cookie r = Some c \<and> c_value c = Text v))"
    using chrome_cookie_decode map_filter_chrome_member rows(3) by blast
  with rows show "\<exists>rows. fetchall st (last executed) = Returns rows \<and> rows \<noteq> [] \<and>
         cs = List.map_filter chrome_cookie rows \<and>
         (\<forall>r \<in> set rows.
            (decode_value (r_value r) = None \<longrightarrow> chrome_cookie r = None) \<and>
            (\<forall>v. decode_value (r_value r) = Some v \<longrightarrow>
               (\<exists>c \<in> set cs. chrome_cookie r = Some c \<and> c_value c = Text v)))"
    by blast
next
  assume a: "connect_error st = None \<and> (\<exists>q \<in> set chrome_queries. returns_rows st q)"
  then obtain cs' where "fst (chrome_query_loop st chrome_queries) = Some cs'"
    using chrome_query_loop_total [of chrome_queries st] by blast
  with a show "\<exists>cs'. extract_cookies_from_chrome_edge st f
      = (Some cs', [], snd (chrome_query_loop st chrome_queries))"
    by (auto simp: extract_cookies_from_chrome_edge_def split: prod.splits)
next
  assume a: "extract_cookies_from_firefox st f = (Some cs, printed, executed)"
  from extract_firefox_cases [OF a] obtain r where
    r: "firefox_query_loop st firefox_queries = (r, executed)"
       "Some cs = (case r of Inr x \<Rightarrow> x | Inl e \<Rightarrow> None)"
    by auto
  from r(2) have "r = Inr (Some cs)" by (cases r) auto
  with r(1) have "firefox_query_loop st firefox_queries = (Inr (Some cs), executed)" by simp
  from firefox_query_loop_some [OF this] obtain rows where
    rows: "fetchall st (last executed) = Returns rows" "rows \<noteq> []" "cs = map firefox_cookie rows"
    by blast
  then have "\<forall>i < length rows. c_value (cs ! i) = r_value (rows ! i)"
    by (simp add: firefox_cookie_def)
  with rows show "\<exists>rows. fetchall st (last executed) = Returns rows \<and> rows \<noteq> [] \<and>
         cs = map firefox_cookie rows \<and>
         (\<forall>i < length rows. c_value (cs ! i) = r_value (rows ! i))"
    by blast
qed

section \<open>A host without cookie files\<close>

lemma prioritize_Nil: "prioritize probe [] = []"
  by (simp add: prioritize_def)

lemma profile_cookie_files_absent:
  "\<not> w_exists w (w_expanduser w base_path) \<Longrightarrow> profile_cookie_files w base_path = []"
  by (simp add: profile_cookie_files_def)

lemma select_cookie_files_empty:
  assumes "get_firefox_cookie_files w = []" "get_chrome_cookie_files w = []"
    "get_edge_cookie_files w = []"
  shows "fst (select_cookie_files w browser quiet) = []"
  using assms by (simp add: select_cookie_files_def Let_def)

lemma no_files_no_run:
  assumes "fst (select_cookie_files w browser quiet) = []"
  shows "rr_returned (extract_linkedin_cookies w browser output_file quiet) = None \<and>
         rr_artifact (extract_linkedin_cookies w browser output_file quiet) = NoArtifact"
proof -
  obtain files name p1 where s: "select_cookie_files w browser quiet = (files, name, p1)"
    by (cases "select_cookie_files w browser quiet") auto
  with assms have "files = []" by simp
  with s show ?thesis by (simp add: extract_linkedin_cookies_def Let_def)
qed

text \<open>
  C9. A base directory that does not exist contributes no file, without any error, so
  the Chrome and Edge locators return the empty list when no base directory exists, and
  the Firefox locator does when its patterns match nothing. When the three locators
  return the empty list, the run returns None, whatever browser was asked for, and
  writes no output file.
\<close>

theorem no_candidate_store_no_artifact:
  "(\<not> w_exists w (w_expanduser w base_path) \<longrightarrow> profile_cookie_files w base_path = []) \<and>
   ((\<forall>b \<in> set (chrome_base_paths (w_system w)). \<not> w_exists w (w_expanduser w b))
      \<longrightarrow> get_chrome_cookie_files w = []) \<and>
   ((\<forall>b \<in> set (edge_base_paths (w_system w)). \<not> w_exists w (w_expanduser w b))
      \<longrightarrow> get_edge_cookie_files w = []) \<and>
   ((\<forall>p \<in> set (firefox_cookie_patterns (w_system w)). w_glob w (w_expanduser w p) = [])
      \<longrightarrow> get_firefox_cookie_files w = []) \<and>
   (get_firefox_cookie_files w = [] \<and> get_chrome_cookie_files w = [] \<and>
    get_edge_cookie_files w = [] \<longrightarrow>
      rr_returned (extract_linkedin_cookies w browser output_file quiet) = None \<and>
      rr_artifact (extract_linkedin_cookies w browser output_file quiet) = NoArtifact)"
proof (intro conjI impI)
  assume "\<not> w_exists w (w_expanduser w base_path)"
  then show "profile_cookie_files w base_path = []" by (rule profile_cookie_files_absent)
next
  assume "\<forall>b \<in> set (chrome_base_paths (w_system w)). \<not> w_exists w (w_expanduser w b)"
  then have "chrome_cookie_files w = []"
    by (simp add: chrome_cookie_files_def profile_cookie_files_absent)
  then show "get_chrome_cookie_files w = []"
    by (simp add: get_chrome_cookie_files_def prioritize_Nil)
next
  assume "\<forall>b \<in> set (edge_base_paths (w_system w)). \<not> w_exists w (w_expanduser w b)"
  then have "edge_cookie_files w = []"
    by (simp add: edge_cookie_files_def profile_cookie_files_absent)
  then show "get_edge_cookie_files w = []"
    by (simp add: get_edge_cookie_files_def prioritize_Nil)
next
  assume "\<forall>p \<in> set (firefox_cookie_patterns (w_system w)). w_glob w (w_expanduser w p) = []"
  then have "firefox_all_cookiefiles w = []"
    by (simp add: firefox_all_cookiefiles_def)
  then show "get_firefox_cookie_files w = []"
    by (simp add: get_firefox_cookie_files_def)
next
  assume a: "get_firefox_cookie_files w = [] \<and> get_chrome_cookie_files w = [] \<and>
    get_edge_cookie_files w = []"
  then have "fst (select_cookie_files w browser quiet) = []"
    by (simp add: select_cookie_files_empty)
  from no_files_no_run [OF this]
  show "rr_returned (extract_linkedin_cookies w browser output_file quiet) = None"
    and "rr_artifact (extract_linkedin_cookies w browser output_file quiet) = NoArtifact"
    by simp_all
qed

theorem no_candidate_store_no_artifact_witness:
  "get_firefox_cookie_files w_bare = [] \<and> get_chrome_cookie_files w_bare = [] \<and>
   get_edge_cookie_files w_bare = [] \<and>
   rr_returned (extract_linkedin_cookies w_bare None ''linkedin_cookies.json'' False) = None \<and>
   rr_artifact (extract_linkedin_cookies w_bare None ''linkedin_cookies.json'' False) = NoArtifact"
proof -
  note t = no_candidate_store_no_artifact [of w_bare _ None "''linkedin_cookies.json''" False]
  have ff: "get_firefox_cookie_files w_bare = []" using t by (simp add: w_bare_def)
  have ch: "get_chrome_cookie_files w_bare = []" using t by (simp add: w_bare_def)
  have ed: "get_edge_cookie_files w_bare = []" using t by (simp add: w_bare_def)
  from t ff ch ed show ?thesis by simp
qed


section \<open>The authentication verdict\<close>

lemma found_auth_cookies_iff:
  "found_auth_cookies cs \<longleftrightarrow>
     (\<exists>c \<in> set cs. c_name c = ''li_at'' \<or> c_name c = ''JSESSIONID'' \<or> c_name c = ''bcookie'' \<or>
        c_name c = ''bscookie'')"
  by (auto simp: found_auth_cookies_def auth_cookie_names_def list_ex_iff)

lemma save_cookies_verdict:
  "rr_found_auth (save_cookies w output_file quiet all_cookies printed) =
     (if all_cookies = [] then None else Some (found_auth_cookies (remove_duplicates all_cookies)))"
  by (simp add: save_cookies_def Let_def split: option.splits)

lemma save_cookies_artifact:
  "rr_artifact (save_cookies w output_file quiet all_cookies printed) = Artifact cs \<Longrightarrow>
     all_cookies \<noteq> [] \<and> cs = remove_duplicates all_cookies"
  by (simp add: save_cookies_def Let_def split: option.splits if_splits)

lemma run_is_save:
  "rr_found_auth (extract_linkedin_cookies w browser output_file quiet) \<noteq> None \<or>
   rr_artifact (extract_linkedin_cookies w browser output_file quiet) \<noteq> NoArtifact \<Longrightarrow>
   \<exists>all_cookies printed files.
      files = fst (select_cookie_files w browser quiet) \<and>
      all_cookies = fst (extract_loop w quiet files [] printed) \<and>
      extract_linkedin_cookies w browser output_file quiet
        = save_cookies w output_file quiet all_cookies (snd (extract_loop w quiet files [] printed))"
proof -
  assume a: "rr_found_auth (extract_linkedin_cookies w browser output_file quiet) \<noteq> None \<or>
   rr_artifact (extract_linkedin_cookies w browser output_file quiet) \<noteq> NoArtifact"
  obtain files name p1 where s: "select_cookie_files w browser quiet = (files, name, p1)"
    by (cases "select_cookie_files w browser quiet") auto
  have ne: "files \<noteq> []"
  proof
    assume "files = []"
    with s a show False by (simp add: extract_linkedin_cookies_def Let_def)
  qed
  define printed where "printed =
    (if \<not> quiet then [CYAN @ '' Extracting LinkedIn cookies from browser...''] else [])
    @ p1 @ (if \<not> quiet
                       then [CYAN @ '' Checking '' @ str_nat (length files)
                             @ '' cookie file(s) from '' @ name @ ''...'']
                       else [])"
  have "extract_linkedin_cookies w browser output_file quiet
        = save_cookies w output_file quiet (fst (extract_loop w quiet files [] printed))
            (snd (extract_loop w quiet files [] printed))"
    using s ne by (simp add: extract_linkedin_cookies_def Let_def printed_def case_prod_beta)
  with s show ?thesis by auto
qed

lemma w_firefox_files:
  "get_firefox_cookie_files w_firefox = [''/home/u/.mozilla/firefox/x.default/cookies.sqlite'']"
  by (simp add: get_firefox_cookie_files_def firefox_all_cookiefiles_def firefox_cookie_patterns_def
      w_firefox_def prioritize_def Let_def)

lemma w_firefox_select:
  "select_cookie_files w_firefox None True
     = ([''/home/u/.mozilla/firefox/x.default/cookies.sqlite''], ''Firefox'', [])"
  by (simp add: select_cookie_files_def browser_is_def w_firefox_files Let_def)

lemma lower_path:
  "contains_str ''firefox'' (lower ''/home/u/.mozilla/firefox/x.default/cookies.sqlite'')"
  by (simp add: lower_def lower_char_def)

lemma w_firefox_extract:
  "extract_from_file w_firefox ''/home/u/.mozilla/firefox/x.default/cookies.sqlite''
     = (Some [firefox_cookie row_lang, firefox_cookie row_bscookie], [], [MozBaseDomain])"
  unfolding extract_from_file_def
  by (simp only: lower_path simp_thms if_True)
     (simp add: w_firefox_def extract_cookies_from_firefox_def st_lang_bscookie_def firefox_queries_def)


lemma w_firefox_loop:
  "extract_loop w_firefox True [''/home/u/.mozilla/firefox/x.default/cookies.sqlite''] [] []
     = ([firefox_cookie row_lang, firefox_cookie row_bscookie], [])"
  by (simp add: w_firefox_extract)

lemma lang_bscookie_unique:
  "remove_duplicates [firefox_cookie row_lang, firefox_cookie row_bscookie]
     = [firefox_cookie row_lang, firefox_cookie row_bscookie]"
  by (simp add: remove_duplicates_def cookie_key_def firefox_cookie_def row_lang_def row_bscookie_def)

lemma w_firefox_run:
  "extract_linkedin_cookies w_firefox None ''linkedin_cookies.json'' True
     = save_cookies w_firefox ''linkedin_cookies.json'' True
         [firefox_cookie row_lang, firefox_cookie row_bscookie] []"
  by (simp add: extract_linkedin_cookies_def w_firefox_select w_firefox_extract)

lemma w_firefox_save:
  "rr_artifact (save_cookies w_firefox ''linkedin_cookies.json'' True
         [firefox_cookie row_lang, firefox_cookie row_bscookie] [])
     = Artifact [firefox_cookie row_lang, firefox_cookie row_bscookie] \<and>
   rr_found_auth (save_cookies w_firefox ''linkedin_cookies.json'' True
         [firefox_cookie row_lang, firefox_cookie row_bscookie] []) = Some True"
proof -
  have found: "found_auth_cookies [firefox_cookie row_lang, firefox_cookie row_bscookie]"
    by (simp add: found_auth_cookies_def auth_cookie_names_def firefox_cookie_def row_lang_def
        row_bscookie_def)
  have ser: "list_all serialisable [firefox_cookie row_lang, firefox_cookie row_bscookie]"
    by (simp add: serialisable_def firefox_cookie_def row_lang_def row_bscookie_def)
  have w: "w_open_write w_firefox ''linkedin_cookies.json'' = None"
    by (simp add: w_firefox_def)
  show ?thesis
    using ser by (simp add: save_cookies_def Let_def lang_bscookie_unique found w)
qed

text \<open>
  C1, as the code has it. The verdict is true exactly when a cookie of the deduplicated
  list is named \<open>li_at\<close>, \<open>JSESSIONID\<close>, \<open>bcookie\<close> or \<open>bscookie\<close>; so a list
  whose cookies are all named \<open>lang\<close> gives false. The verdict of a run is this value
  on the deduplicated cookies of the run, which are the ones it saves.
\<close>

theorem auth_verdict:
  "(found_auth_cookies cs \<longleftrightarrow>
     (\<exists>c \<in> set cs. c_name c = ''li_at'' \<or> c_name c = ''JSESSIONID'' \<or> c_name c = ''bcookie'' \<or>
        c_name c = ''bscookie'')) \<and>
   ((\<forall>c \<in> set cs. c_name c = ''lang'') \<longrightarrow> \<not> found_auth_cookies cs) \<and>
   (rr_artifact (extract_linkedin_cookies w browser output_file quiet) = Artifact cs \<longrightarrow>
      rr_found_auth (extract_linkedin_cookies w browser output_file quiet)
        = Some (found_auth_cookies cs)) \<and>
   (rr_found_auth (extract_linkedin_cookies w browser output_file quiet) = Some v \<longrightarrow>
      (\<exists>all_cookies printed.
         all_cookies = fst (extract_loop w quiet (fst (select_cookie_files w browser quiet)) [] printed) \<and>
         all_cookies \<noteq> [] \<and>
         v = found_auth_cookies (remove_duplicates all_cookies)))"
proof (intro conjI impI)
  show "found_auth_cookies cs \<longleftrightarrow>
     (\<exists>c \<in> set cs. c_name c = ''li_at'' \<or> c_name c = ''JSESSIONID'' \<or> c_name c = ''bcookie'' \<or>
        c_name c = ''bscookie'')"
    by (rule found_auth_cookies_iff)
next
  assume "\<forall>c \<in> set cs. c_name c = ''lang''"
  then show "\<not> found_auth_cookies cs" unfolding found_auth_cookies_iff by auto
next
  assume a: "rr_artifact (extract_linkedin_cookies w browser output_file quiet) = Artifact cs"
  then have "rr_found_auth (extract_linkedin_cookies w browser output_file quiet) \<noteq> None \<or>
   rr_artifact (extract_linkedin_cookies w browser output_file quiet) \<noteq> NoArtifact" by simp
  from run_is_save [OF this] obtain all_cookies printed where
    r: "extract_linkedin_cookies w browser output_file quiet
        = save_cookies w output_file quiet all_cookies printed"
    by blast
  from a r have "all_cookies \<noteq> [] \<and> cs = remove_duplicates all_cookies"
    using save_cookies_artifact [of w output_file quiet all_cookies printed cs] by simp
  then show "rr_found_auth (extract_linkedin_cookies w browser output_file quiet)
        = Some (found_auth_cookies cs)"
    unfolding r save_cookies_verdict by simp
next
  assume a: "rr_found_auth (extract_linkedin_cookies w browser output_file quiet) = Some v"
  then have "rr_found_auth (extract_linkedin_cookies w browser output_file quiet) \<noteq> None \<or>
   rr_artifact (extract_linkedin_cookies w browser output_file quiet) \<noteq> NoArtifact" by simp
  from run_is_save [OF this] obtain all_cookies printed where
    r: "all_cookies = fst (extract_loop w quiet (fst (select_cookie_files w browser quiet)) [] printed)"
       "extract_linkedin_cookies w browser output_file quiet
        = save_cookies w output_file quiet all_cookies
            (snd (extract_loop w quiet (fst (select_cookie_files w browser quiet)) [] printed))"
    by blast
  from a r(2) have "all_cookies \<noteq> [] \<and> v = found_auth_cookies (remove_duplicates all_cookies)"
    by (simp add: save_cookies_verdict split: if_splits)
  with r(1) show "\<exists>all_cookies printed.
         all_cookies = fst (extract_loop w quiet (fst (select_cookie_files w browser quiet)) [] printed) \<and>
         all_cookies \<noteq> [] \<and>
         v = found_auth_cookies (remove_duplicates all_cookies)"
    by blast
qed

theorem auth_verdict_witness:
  "\<not> found_auth_cookies [firefox_cookie row_lang] \<and>
   found_auth_cookies [firefox_cookie row_lang, firefox_cookie row_www] \<and>
   rr_found_auth (extract_linkedin_cookies w_firefox None ''linkedin_cookies.json'' True)
     = Some (found_auth_cookies [firefox_cookie row_lang, firefox_cookie row_bscookie])"
proof -
  have "\<forall>c \<in> set [firefox_cookie row_lang]. c_name c = ''lang''"
    by (simp add: firefox_cookie_def row_lang_def)
  with auth_verdict [of "[firefox_cookie row_lang]"]
  have a: "\<not> found_auth_cookies [firefox_cookie row_lang]" by blast
  have "c_name (firefox_cookie row_www) = ''li_at''"
    by (simp add: firefox_cookie_def row_www_def)
  with auth_verdict [of "[firefox_cookie row_lang, firefox_cookie row_www]"]
  have b: "found_auth_cookies [firefox_cookie row_lang, firefox_cookie row_www]" by simp
  have "rr_artifact (extract_linkedin_cookies w_firefox None ''linkedin_cookies.json'' True)
     = Artifact [firefox_cookie row_lang, firefox_cookie row_bscookie]"
    using w_firefox_save by (simp only: w_firefox_run)
  with auth_verdict [of "[firefox_cookie row_lang, firefox_cookie row_bscookie]" w_firefox None
      "''linkedin_cookies.json''" True]
  have c: "rr_found_auth (extract_linkedin_cookies w_firefox None ''linkedin_cookies.json'' True)
     = Some (found_auth_cookies [firefox_cookie row_lang, firefox_cookie row_bscookie])"
    by blast
  from a b c show ?thesis by simp
qed

text \<open>
  A run on a host whose only store holds \<open>lang\<close> and \<open>bscookie\<close> (no \<open>li_at\<close>,
  \<open>JSESSIONID\<close> or \<open>bcookie\<close>): the verdict is true.
\<close>

theorem lang_and_bscookie_are_sufficient:
  "map c_name [firefox_cookie row_lang, firefox_cookie row_bscookie] = [''lang'', ''bscookie''] \<and>
   rr_artifact (extract_linkedin_cookies w_firefox None ''linkedin_cookies.json'' True)
     = Artifact [firefox_cookie row_lang, firefox_cookie row_bscookie] \<and>
   rr_found_auth (extract_linkedin_cookies w_firefox None ''linkedin_cookies.json'' True) = Some True"
proof -
  have names: "map c_name [firefox_cookie row_lang, firefox_cookie row_bscookie] = [''lang'', ''bscookie'']"
    by (simp add: firefox_cookie_def row_lang_def row_bscookie_def)
  with w_firefox_save show ?thesis by (simp only: w_firefox_run simp_thms)
qed

section \<open>A Firefox value that does not decode\<close>

lemma w_old_firefox_files:
  "get_firefox_cookie_files w_old_firefox = [''/home/u/.mozilla/firefox/x.default/cookies.sqlite'']"
  by (simp add: get_firefox_cookie_files_def firefox_all_cookiefiles_def firefox_cookie_patterns_def
      w_old_firefox_def prioritize_def Let_def)

lemma w_old_firefox_select:
  "select_cookie_files w_old_firefox None True
     = ([''/home/u/.mozilla/firefox/x.default/cookies.sqlite''], ''Firefox'', [])"
  by (simp add: select_cookie_files_def browser_is_def w_old_firefox_files Let_def)

lemma st_old_firefox_extract:
  "extract_cookies_from_firefox st_old_firefox f
     = (Some [firefox_cookie row_enc, firefox_cookie row_www], [], [MozBaseDomain, MozHostList])"
  by (simp add: extract_cookies_from_firefox_def st_old_firefox_def firefox_queries_def)

lemma w_old_firefox_extract:
  "extract_from_file w_old_firefox ''/home/u/.mozilla/firefox/x.default/cookies.sqlite''
     = (Some [firefox_cookie row_enc, firefox_cookie row_www], [], [MozBaseDomain, MozHostList])"
  unfolding extract_from_file_def
  by (simp only: lower_path simp_thms if_True)
     (simp add: w_old_firefox_def st_old_firefox_extract)

lemma w_old_firefox_run:
  "extract_linkedin_cookies w_old_firefox None ''linkedin_cookies.json'' True
     = save_cookies w_old_firefox ''linkedin_cookies.json'' True
         [firefox_cookie row_enc, firefox_cookie row_www] []"
  by (simp add: extract_linkedin_cookies_def w_old_firefox_select w_old_firefox_extract)

lemma enc_www_unique:
  "remove_duplicates [firefox_cookie row_enc, firefox_cookie row_www]
     = [firefox_cookie row_enc, firefox_cookie row_www]"
  by (simp add: remove_duplicates_def cookie_key_def firefox_cookie_def row_enc_def row_www_def)

text \<open>
  C5. The claim asks of both families that a row whose value is bytes that do not decode
  is dropped alone, the other rows of the store being extracted. At a Firefox store
  whose winning query returns such a row before a readable one, the extractor keeps the
  row, with the bytes as the cookie's value; the run then opens the output file, fails
  to serialise the bytes, returns None and leaves a broken file, so the readable row is
  lost with it. On the same rows the Chrome/Edge extractor drops that row and returns
  the cookies of the others.
\<close>

theorem firefox_undecodable_row_fails_run:
  "decode_value (r_value row_enc) = None \<and>
   fetchall st_old_firefox MozHostList = Returns [row_enc, row_www] \<and>
   extract_cookies_from_firefox st_old_firefox ''/home/u/.mozilla/firefox/x.default/cookies.sqlite''
     = (Some [firefox_cookie row_enc, firefox_cookie row_www], [], [MozBaseDomain, MozHostList]) \<and>
   c_value (firefox_cookie row_enc) = Bytes [CHR 0x76, CHR 0x31, CHR 0x30, CHR 0xFF, CHR 0x01] \<and>
   rr_returned (extract_linkedin_cookies w_old_firefox None ''linkedin_cookies.json'' True) = None \<and>
   rr_artifact (extract_linkedin_cookies w_old_firefox None ''linkedin_cookies.json'' True)
     = BrokenArtifact \<and>
   chrome_cookie row_enc = None \<and>
   fetchall st_chrome CookiesHostKeyLike = Returns [row_dot, row_enc, row_www] \<and>
   fst (extract_cookies_from_chrome_edge st_chrome ''Cookies'')
     = Some [the (chrome_cookie row_dot), the (chrome_cookie row_www)]"
proof -
  have a: "decode_value (r_value row_enc) = None"
    by (simp add: decode_value_def row_enc_def)
  have b: "fetchall st_old_firefox MozHostList = Returns [row_enc, row_www]"
    by (simp add: st_old_firefox_def)
  have c: "c_value (firefox_cookie row_enc) = Bytes [CHR 0x76, CHR 0x31, CHR 0x30, CHR 0xFF, CHR 0x01]"
    by (simp add: firefox_cookie_def row_enc_def)
  have ser: "\<not> serialisable (firefox_cookie row_enc)"
    by (simp add: serialisable_def c)
  have w: "w_open_write w_old_firefox ''linkedin_cookies.json'' = None"
    by (simp add: w_old_firefox_def)
  have d: "rr_returned (save_cookies w_old_firefox ''linkedin_cookies.json'' True
         [firefox_cookie row_enc, firefox_cookie row_www] []) = None"
    using ser by (simp add: save_cookies_def Let_def enc_www_unique w)
  have e: "rr_artifact (save_cookies w_old_firefox ''linkedin_cookies.json'' True
         [firefox_cookie row_enc, firefox_cookie row_www] []) = BrokenArtifact"
    using ser by (simp add: save_cookies_def Let_def enc_www_unique w)
  have f: "chrome_cookie row_enc = None"
    by (simp add: chrome_cookie_def a)
  have g: "fetchall st_chrome CookiesHostKeyLike = Returns [row_dot, row_enc, row_www]"
    by (simp add: st_chrome_def)
  have h: "fst (extract_cookies_from_chrome_edge st_chrome ''Cookies'')
     = Some [the (chrome_cookie row_dot), the (chrome_cookie row_www)]"
    by (simp add: extract_cookies_from_chrome_edge_def st_chrome_def chrome_queries_def
        List.map_filter_def f)
       (simp add: chrome_cookie_def decode_value_def row_dot_def row_www_def cont_byte_def)
  from a b c d e f g h show ?thesis
    by (simp only: w_old_firefox_run st_old_firefox_extract simp_thms)
qed

end
